theory Spec2Isabelle
  imports Complex_Main "HOL-Library.AList"
begin

section \<open>Earthquake risk assessor: strings, region tables and place resolution\<close>

text \<open>
  The development embeds \<^verbatim>\<open>src/earthquake_risk_assessor.py\<close>. Python \<^verbatim>\<open>str\<close> values are
  modelled as \<^typ>\<open>string\<close>, one \<^typ>\<open>char\<close> per character. A Python \<^verbatim>\<open>float\<close> is
  modelled as the \<^typ>\<open>real\<close> it denotes (infinities and NaN are left out). In the
  ranking the sums of floats are exact; in the distance and in the scorer, where an
  exception depends on the computed value, every float operation rounds.
  Every exception the embedded code can raise is a value of \<open>error\<close>; a
  \<open>ZeroDivisionError\<close> records the statement whose division raised it.
\<close>

datatype division = AvgMagnitude | MagnitudeFactor | NumQuakesFactor

datatype error = KeyError | IndexError | ValueError | ZeroDivisionError division

subsection \<open>\<^verbatim>\<open>str.split(sep)\<close>, \<^verbatim>\<open>list.pop()\<close> and dictionaries\<close>

text \<open>
  \<^verbatim>\<open>s.split(sep)\<close> scans left to right and cuts at every occurrence of the separator
  that does not overlap the previous cut. The accumulator holds the current token
  reversed. Both call sites pass a literal, non-empty separator.
\<close>

function split_from :: "string \<Rightarrow> string \<Rightarrow> string \<Rightarrow> string list" where
  "split_from sep acc [] = [rev acc]"
| "split_from sep acc (c # cs) =
     (if sep \<noteq> [] \<and> take (length sep) (c # cs) = sep
      then rev acc # split_from sep [] (drop (length sep) (c # cs))
      else split_from sep (c # acc) cs)"
  by pat_completeness auto
termination
  by (relation "measure (\<lambda>(sep, acc, s). length s)") auto

definition str_split :: "string \<Rightarrow> string \<Rightarrow> string list" where
  "str_split sep s = split_from sep [] s"

text \<open>\<^verbatim>\<open>xs.pop()\<close> returns the last element and raises \<^verbatim>\<open>IndexError\<close> on an empty list.\<close>

definition pop :: "'a list \<Rightarrow> error + 'a" where
  "pop xs = (if xs = [] then Inl IndexError else Inr (last xs))"

text \<open>
  A Python \<^verbatim>\<open>dict\<close> keeps its keys in insertion order, and storing under a key that is
  present replaces the value in place: an association list under \<^const>\<open>AList.update\<close>.
  \<^verbatim>\<open>d[k]\<close> raises \<^verbatim>\<open>KeyError\<close> on a missing key.
\<close>

type_synonym ('k, 'v) dict = "('k \<times> 'v) list"

definition getitem :: "('k, 'v) dict \<Rightarrow> 'k \<Rightarrow> error + 'v" where
  "getitem d k = (case map_of d k of None \<Rightarrow> Inl KeyError | Some v \<Rightarrow> Inr v)"

subsection \<open>The region tables\<close>

text \<open>
  \<^verbatim>\<open>__us_state_code_to_name_map\<close> reads \<^verbatim>\<open>data/us_states.txt\<close>; the file is a parameter
  here: \<open>us_states\<close> is what \<^verbatim>\<open>f.readlines()\<close> returns. Each line gives the key
  \<^verbatim>\<open>raw_state.split("|")[0]\<close> and the value \<^verbatim>\<open>raw_state.split("|")[-1].replace("\n", "")\<close>;
  a split is never empty, so neither index can raise.
\<close>

definition us_state_code_to_name_map :: "string list \<Rightarrow> (string, string) dict" where
  "us_state_code_to_name_map us_states =
     foldl (\<lambda>d raw_state.
              AList.update (hd (str_split ''|'' raw_state))
                (filter (\<lambda>c. c \<noteq> CHR 0x0A) (last (str_split ''|'' raw_state))) d)
       [] us_states"

text \<open>\<^verbatim>\<open>{v: k for k, v in __us_state_code_to_name_map().items()}\<close>\<close>

definition us_state_name_to_code_map :: "string list \<Rightarrow> (string, string) dict" where
  "us_state_name_to_code_map us_states =
     foldl (\<lambda>d (k, v). AList.update v k d) [] (us_state_code_to_name_map us_states)"

definition us_state_code_to_name :: "string list \<Rightarrow> string \<Rightarrow> error + string" where
  "us_state_code_to_name us_states state_code =
     getitem (us_state_code_to_name_map us_states) state_code"

definition us_state_name_to_code :: "string list \<Rightarrow> string \<Rightarrow> error + string" where
  "us_state_name_to_code us_states state_name =
     getitem (us_state_name_to_code_map us_states) state_name"

subsection \<open>\<^verbatim>\<open>parse_earthquake_location\<close>\<close>

record EarthquakeLocation =
  state_name :: string
  state_code :: string

definition skipped_states :: "string list" where
  "skipped_states = [''Canada'', ''MX'', ''Mexico'']"

text \<open>
  The body of the \<^verbatim>\<open>try\<close> block: the designator of length 2 is a code, any other a name.
\<close>

definition lookup_state :: "string list \<Rightarrow> string \<Rightarrow> error + EarthquakeLocation" where
  "lookup_state us_states designator =
     (if length designator = 2
      then (case us_state_code_to_name us_states designator of
              Inl e \<Rightarrow> Inl e
            | Inr name \<Rightarrow> Inr \<lparr>state_name = name, state_code = designator\<rparr>)
      else (case us_state_name_to_code us_states designator of
              Inl e \<Rightarrow> Inl e
            | Inr code \<Rightarrow> Inr \<lparr>state_name = designator, state_code = code\<rparr>))"

text \<open>
  \<^verbatim>\<open>except KeyError\<close> turns a failed lookup into \<^verbatim>\<open>None\<close>; any other exception of the
  block would propagate.
\<close>

definition parse_earthquake_location ::
  "string list \<Rightarrow> string \<Rightarrow> error + EarthquakeLocation option" where
  "parse_earthquake_location us_states place =
     (case pop (str_split '', '' place) of
        Inl e \<Rightarrow> Inl e
      | Inr designator \<Rightarrow>
          if designator \<in> set skipped_states then Inr None
          else (case lookup_state us_states designator of
                  Inl KeyError \<Rightarrow> Inr None
                | Inl e \<Rightarrow> Inl e
                | Inr loc \<Rightarrow> Inr (Some loc)))"

text \<open>
  The region designator of a place text: the token that \<^verbatim>\<open>place_split.pop()\<close> yields.
\<close>

definition region_designator :: "string \<Rightarrow> string" where
  "region_designator place = last (str_split '', '' place)"

text \<open>A two-line region file, used in the examples.\<close>

definition two_states :: "string list" where
  "two_states = [''CA|06|California'' @ [CHR 0x0A], ''TX|48|Texas'' @ [CHR 0x0A]]"

section \<open>Parsing the raw records\<close>

text \<open>
  An aware \<^verbatim>\<open>datetime\<close> is modelled by its instant, in microseconds since the epoch.
\<close>

datatype datetime = Datetime int

record Earthquake =
  time :: datetime
  magnitude :: real
  latitude :: real
  longitude :: real
  earthquake_location :: EarthquakeLocation

text \<open>
  A row of the \<^verbatim>\<open>csv.DictReader\<close> is a dictionary from column names to cell texts.
  The two library conversions \<^verbatim>\<open>float(s)\<close> and \<^verbatim>\<open>datetime.strptime(s, fmt)\<close> are
  parameters; each returns \<open>None\<close> where the library raises \<^verbatim>\<open>ValueError\<close>.
\<close>

type_synonym row = "(string, string) dict"

definition convert :: "(string \<Rightarrow> 'a option) \<Rightarrow> string \<Rightarrow> error + 'a" where
  "convert conv s = (case conv s of None \<Rightarrow> Inl ValueError | Some v \<Rightarrow> Inr v)"

definition and_then :: "error + 'a \<Rightarrow> ('a \<Rightarrow> error + 'b) \<Rightarrow> error + 'b" where
  "and_then r f = (case r of Inl e \<Rightarrow> Inl e | Inr v \<Rightarrow> f v)"

text \<open>
  The constructor call \<^verbatim>\<open>Earthquake(time=..., magnitude=..., latitude=..., longitude=..., ...)\<close>:
  the arguments are evaluated in the order written, the first exception wins.
\<close>

definition make_earthquake ::
  "(string \<Rightarrow> real option) \<Rightarrow> (string \<Rightarrow> datetime option) \<Rightarrow> row \<Rightarrow> EarthquakeLocation
     \<Rightarrow> error + Earthquake" where
  "make_earthquake float strptime earthquake loc =
     and_then (getitem earthquake ''time'') (\<lambda>t_text.
     and_then (convert strptime t_text) (\<lambda>t.
     and_then (getitem earthquake ''mag'') (\<lambda>mag_text.
     and_then (convert float mag_text) (\<lambda>mag.
     and_then (getitem earthquake ''latitude'') (\<lambda>lat_text.
     and_then (convert float lat_text) (\<lambda>lat.
     and_then (getitem earthquake ''longitude'') (\<lambda>lon_text.
     and_then (convert float lon_text) (\<lambda>lon.
       Inr \<lparr>time = t, magnitude = mag, latitude = lat, longitude = lon,
            earthquake_location = loc\<rparr>))))))))"

text \<open>
  The \<^verbatim>\<open>for\<close> loop of \<^verbatim>\<open>parse_raw_earthquake_data\<close> over the fetched rows, with the list
  \<^verbatim>\<open>earthquakes\<close> it appends to. The fetch itself is outside the model: \<open>rows\<close> is what
  \<^verbatim>\<open>fetch_raw_earthquake_data\<close> returned.
\<close>

fun parse_rows ::
  "(string \<Rightarrow> real option) \<Rightarrow> (string \<Rightarrow> datetime option) \<Rightarrow> string list
     \<Rightarrow> row list \<Rightarrow> Earthquake list \<Rightarrow> error + Earthquake list" where
  "parse_rows float strptime us_states [] earthquakes = Inr earthquakes"
| "parse_rows float strptime us_states (earthquake # rest) earthquakes =
     and_then (getitem earthquake ''place'') (\<lambda>place.
     and_then (parse_earthquake_location us_states place) (\<lambda>earthquake_location.
       case earthquake_location of
         None \<Rightarrow> parse_rows float strptime us_states rest earthquakes
       | Some loc \<Rightarrow>
           and_then (make_earthquake float strptime earthquake loc) (\<lambda>q.
             parse_rows float strptime us_states rest (earthquakes @ [q]))))"

definition parse_raw_earthquake_data ::
  "(string \<Rightarrow> real option) \<Rightarrow> (string \<Rightarrow> datetime option) \<Rightarrow> string list
     \<Rightarrow> row list \<Rightarrow> error + Earthquake list" where
  "parse_raw_earthquake_data float strptime us_states rows =
     parse_rows float strptime us_states rows []"

section \<open>Great-circle distance\<close>

text \<open>
  Float arithmetic and the \<^verbatim>\<open>math\<close> library are outside the repository and are a
  parameter of the distance and of the scorer. A float is the real it denotes;
  \<open>rnd\<close> rounds the exact result of one arithmetic operation (\<^verbatim>\<open>+\<close>, \<^verbatim>\<open>-\<close>, \<^verbatim>\<open>*\<close>, \<^verbatim>\<open>/\<close>,
  \<^verbatim>\<open>**\<close>) to the float the operation returns, and the other fields are the library
  functions on floats. \<^verbatim>\<open>math.sqrt\<close> raises \<^verbatim>\<open>ValueError\<close> on a negative argument.
\<close>

record float_math =
  rnd :: "real \<Rightarrow> real"
  f_radians :: "real \<Rightarrow> real"
  f_sin :: "real \<Rightarrow> real"
  f_cos :: "real \<Rightarrow> real"
  f_sqrt :: "real \<Rightarrow> real"
  f_atan2 :: "real \<Rightarrow> real \<Rightarrow> real"

definition math_sqrt :: "float_math \<Rightarrow> real \<Rightarrow> error + real" where
  "math_sqrt m x = (if x < 0 then Inl ValueError else Inr (f_sqrt m x))"

definition RADIUS_OF_EARTH :: real where
  "RADIUS_OF_EARTH = 6371"

definition MAX_MAGNITUDE :: real where
  "MAX_MAGNITUDE = 10"

definition NEARBY_EARTHQUAKE_RADIUS_KM :: real where
  "NEARBY_EARTHQUAKE_RADIUS_KM = 200"

text \<open>
  \<^verbatim>\<open>haversine_distance\<close>, statement by statement. In the call of \<^verbatim>\<open>math.atan2\<close> the
  argument \<^verbatim>\<open>math.sqrt(chord)\<close> is evaluated before \<^verbatim>\<open>math.sqrt(1 - chord)\<close>; either
  raises when rounding has taken \<^verbatim>\<open>chord\<close> out of the interval from 0 to 1.
\<close>

definition haversine_distance ::
  "float_math \<Rightarrow> real \<Rightarrow> real \<Rightarrow> real \<Rightarrow> real \<Rightarrow> error + real" where
  "haversine_distance m latitude_1 longitude_1 latitude_2 longitude_2 =
     (let latitude_1_rad = f_radians m latitude_1;
          longitude_1_rad = f_radians m longitude_1;
          latitude_2_rad = f_radians m latitude_2;
          longitude_2_rad = f_radians m longitude_2;
          diff_latitude = rnd m (latitude_2_rad - latitude_1_rad);
          diff_longitude = rnd m (longitude_2_rad - longitude_1_rad);
          chord = rnd m
            (rnd m ((f_sin m (rnd m (diff_latitude / 2)))\<^sup>2)
             + rnd m (rnd m (f_cos m latitude_1_rad * f_cos m latitude_2_rad)
                      * rnd m ((f_sin m (rnd m (diff_longitude / 2)))\<^sup>2)))
      in and_then (math_sqrt m chord) (\<lambda>root_chord.
         and_then (math_sqrt m (rnd m (1 - chord))) (\<lambda>root_rest.
           Inr (rnd m (RADIUS_OF_EARTH * rnd m (2 * f_atan2 m root_chord root_rest))))))"

definition is_within_distance ::
  "float_math \<Rightarrow> real \<Rightarrow> real \<Rightarrow> real \<Rightarrow> real \<Rightarrow> real \<Rightarrow> error + bool" where
  "is_within_distance m latitude_1 longitude_1 latitude_2 longitude_2 limit_distance =
     and_then (haversine_distance m latitude_1 longitude_1 latitude_2 longitude_2)
       (\<lambda>haver_distance. Inr (haver_distance \<le> limit_distance))"

subsection \<open>Exact arithmetic\<close>

text \<open>
  The functions that the library approximates, and the arithmetic without rounding.
  \<^verbatim>\<open>math.atan2(y, x)\<close> is the angle of the point \<open>(x, y)\<close>, in \<open>(-pi, pi]\<close>, and 0 at the
  origin. \<open>chord\<close> is the haversine term of the distance in exact arithmetic.
\<close>

definition radians :: "real \<Rightarrow> real" where
  "radians x = x * pi / 180"

definition atan2 :: "real \<Rightarrow> real \<Rightarrow> real" where
  "atan2 y x =
     (if 0 < x then arctan (y / x)
      else if x < 0 then (if 0 \<le> y then arctan (y / x) + pi else arctan (y / x) - pi)
      else if 0 < y then pi / 2
      else if y < 0 then - pi / 2
      else 0)"

definition exact_math :: float_math where
  "exact_math =
     \<lparr>rnd = (\<lambda>x. x), f_radians = radians, f_sin = sin, f_cos = cos, f_sqrt = sqrt,
      f_atan2 = atan2\<rparr>"

definition chord :: "real \<Rightarrow> real \<Rightarrow> real \<Rightarrow> real \<Rightarrow> real" where
  "chord latitude_1 longitude_1 latitude_2 longitude_2 =
     (sin ((radians latitude_2 - radians latitude_1) / 2))\<^sup>2
     + cos (radians latitude_1) * cos (radians latitude_2)
       * (sin ((radians longitude_2 - radians longitude_1) / 2))\<^sup>2"

subsection \<open>The floats of one computation\<close>

text \<open>
  The distance from latitude 2.6, longitude -12 to latitude -2.6, longitude 168 in
  double precision. \<open>lat_2_6\<close> is the float that the literal \<^verbatim>\<open>2.6\<close> denotes. \<open>double_math\<close>
  is exact arithmetic, replaced by the results of the IEEE operations and of the
  library on the arguments that this computation meets (elsewhere its values are not
  used): \<^verbatim>\<open>math.radians\<close> of the four coordinates, the four operations of the computation
  whose exact result is not a float, and the sines, cosines and the square root taken.
\<close>

definition lat_2_6 :: real where
  "lat_2_6 = 5854679515581645 / 2251799813685248"

definition double_math :: float_math where
  "double_math =
     \<lparr>rnd = (\<lambda>x.
        if x = 56593902016227523 / 18014398509481984
          then 884279719003555 / 281474976710656
        else if x = 10684712068639341481190175102769 / 5192296858534827628530496329220096
          then 4744965340037473 / 2305843009213693952
        else if x = 20240672447133550050324077238025 / 20282409603651670423947251286016
          then 70223939327199 / 70368744177664
        else if x = 2305843009213694305 / 2305843009213693952
          then 4503599627370497 / 4503599627370496
        else x),
      f_radians = (\<lambda>x.
        if x = lat_2_6 then 6539739788541847 / 144115188075855872
        else if x = - lat_2_6 then - (6539739788541847 / 144115188075855872)
        else if x = - 12 then - (3772926801081835 / 18014398509481984)
        else if x = 168 then 6602621901893211 / 2251799813685248
        else radians x),
      f_sin = (\<lambda>x.
        if x = - (6539739788541847 / 144115188075855872)
          then - (3268747782965113 / 72057594037927936)
        else if x = 884279719003555 / 562949953421312 then 1
        else sin x),
      f_cos = (\<lambda>x.
        if x = 6539739788541847 / 144115188075855872 \<or> x = - (6539739788541847 / 144115188075855872)
          then 4498963485863555 / 4503599627370496
        else cos x),
      f_sqrt = (\<lambda>x. if x = 4503599627370497 / 4503599627370496 then 1 else sqrt x),
      f_atan2 = atan2\<rparr>"

section \<open>Ranking the regions\<close>

text \<open>
  The inner dictionary \<^verbatim>\<open>{"magnitude": ..., "count": ...}\<close> of \<^verbatim>\<open>risk_rank_by_state\<close>.
\<close>

record Rank =
  rank_magnitude :: real
  rank_count :: int

text \<open>
  The \<^verbatim>\<open>for\<close> loop over the parsed events, on the state \<^verbatim>\<open>(ranking, seen_states)\<close>.
  A region whose code was seen is looked up in \<^verbatim>\<open>ranking\<close> by its name (\<^verbatim>\<open>KeyError\<close>
  if that name has no entry) and its entry is changed in place; otherwise the entry
  is stored and the code is recorded.
\<close>

fun rank_loop ::
  "Earthquake list \<Rightarrow> (string, Rank) dict \<times> string list
     \<Rightarrow> error + (string, Rank) dict \<times> string list" where
  "rank_loop [] st = Inr st"
| "rank_loop (earthquake # rest) (ranking, seen_states) =
     (if state_code (earthquake_location earthquake) \<in> set seen_states
      then and_then (getitem ranking (state_name (earthquake_location earthquake))) (\<lambda>r.
             rank_loop rest
               (AList.update (state_name (earthquake_location earthquake))
                  \<lparr>rank_magnitude = rank_magnitude r + magnitude earthquake,
                   rank_count = rank_count r + 1\<rparr> ranking,
                seen_states))
      else rank_loop rest
             (AList.update (state_name (earthquake_location earthquake))
                \<lparr>rank_magnitude = magnitude earthquake, rank_count = 1\<rparr> ranking,
              seen_states @ [state_code (earthquake_location earthquake)]))"

text \<open>
  \<^verbatim>\<open>sorted(items, key=..., reverse=True)\<close> is a stable sort by descending key: items
  with equal keys keep their order. \<^const>\<open>sort_key\<close> is a stable insertion sort, here on
  the negated count. The dictionary comprehension then stores the sorted items one by
  one. \<open>earthquake_data\<close> is what \<^verbatim>\<open>parse_raw_earthquake_data()\<close> returned.
\<close>

definition risk_rank_by_state :: "Earthquake list \<Rightarrow> error + (string, Rank) dict" where
  "risk_rank_by_state earthquake_data =
     and_then (rank_loop earthquake_data ([], [])) (\<lambda>(ranking, seen_states).
       Inr (foldl (\<lambda>d (k, v). AList.update k v d) []
              (sort_key (\<lambda>i. - rank_count (snd i)) ranking)))"

section \<open>Scoring a client location\<close>

record EarthquakeRisk =
  nearby_earthquakes :: int
  nearby_total_magnitude :: real
  avg_magnitude :: real
  magnitude_factor :: real
  num_quakes_factor :: real
  total_risk_factor :: real
  should_insure :: bool

text \<open>
  A \<^verbatim>\<open>ClientLocation\<close> object: the seven fields of the dataclass and the three
  attributes that \<^verbatim>\<open>calculate_earthquake_risk_for_location\<close> assigns on the instance,
  \<open>None\<close> while the instance has no such attribute of its own.
\<close>

record ClientLocation =
  building_name :: string
  location :: string
  city :: string
  state :: string
  full_address :: string
  client_latitude :: real
  client_longitude :: real
  earthquake_risk :: "EarthquakeRisk option"
  client_nearby_total_magnitude :: "real option"
  client_nearby_earthquakes :: "int option"

text \<open>
  The \<^verbatim>\<open>for\<close> loop of the scorer, on the pair
  \<^verbatim>\<open>(nearby_total_magnitude, nearby_earthquakes)\<close>. An exception of the distance leaves
  the loop.
\<close>

fun nearby ::
  "float_math \<Rightarrow> ClientLocation \<Rightarrow> Earthquake list \<Rightarrow> real \<times> int \<Rightarrow> error + real \<times> int" where
  "nearby m client_location [] acc = Inr acc"
| "nearby m client_location (earthquake # rest) (total_magnitude, earthquakes) =
     and_then
       (is_within_distance m (latitude earthquake) (longitude earthquake)
          (client_latitude client_location) (client_longitude client_location)
          NEARBY_EARTHQUAKE_RADIUS_KM)
       (\<lambda>is_near.
          nearby m client_location rest
            (if is_near
             then (rnd m (total_magnitude + magnitude earthquake), earthquakes + 1)
             else (total_magnitude, earthquakes)))"

text \<open>
  The function changes its argument in place and returns it. The model returns the
  outcome of the call together with the object as the call leaves it: \<open>Inr ()\<close> when
  the call returns (the returned value is the object), \<open>Inl e\<close> when it raises \<open>e\<close>.
  The call of \<^verbatim>\<open>parse_raw_earthquake_data()\<close> and the loop come before the two
  attribute assignments, the three divisions after them. The integer operations are
  exact, the float operations round; \<^verbatim>\<open>0.22\<close> is a float literal, and as no float lies
  between the number 0.22 and that float, the comparison with the number decides
  the same.
\<close>

definition calculate_earthquake_risk_for_location ::
  "float_math \<Rightarrow> (string \<Rightarrow> real option) \<Rightarrow> (string \<Rightarrow> datetime option) \<Rightarrow> string list
     \<Rightarrow> row list \<Rightarrow> ClientLocation \<Rightarrow> (error + unit) \<times> ClientLocation" where
  "calculate_earthquake_risk_for_location m float strptime us_states rows client_location =
     (case parse_raw_earthquake_data float strptime us_states rows of
        Inl e \<Rightarrow> (Inl e, client_location)
      | Inr earthquake_data \<Rightarrow>
     (case nearby m client_location earthquake_data (0, 0) of
        Inl e \<Rightarrow> (Inl e, client_location)
      | Inr (total_magnitude, earthquakes) \<Rightarrow>
     (let client_location = client_location
            \<lparr>client_nearby_total_magnitude := Some total_magnitude\<rparr>;
          client_location = client_location
            \<lparr>client_nearby_earthquakes := Some earthquakes\<rparr>
      in if earthquakes = 0
         then (Inl (ZeroDivisionError AvgMagnitude), client_location)
         else let avg = rnd m (total_magnitude / of_int earthquakes);
                  rest = rnd m (MAX_MAGNITUDE - avg)
         in if rest = 0
         then (Inl (ZeroDivisionError MagnitudeFactor), client_location)
         else let mag_factor = rnd m (1 / rest)
         in if 1000 - earthquakes = 0
         then (Inl (ZeroDivisionError NumQuakesFactor), client_location)
         else let quakes_factor = rnd m (rnd m (1 / of_int (1000 - earthquakes)) * 100);
                  total = rnd m (mag_factor + quakes_factor);
                  insure = (if total \<ge> 0.22 then False else True)
         in (Inr (),
             client_location
               \<lparr>earthquake_risk := Some
                  \<lparr>nearby_earthquakes = earthquakes,
                   nearby_total_magnitude = total_magnitude,
                   avg_magnitude = avg,
                   magnitude_factor = mag_factor,
                   num_quakes_factor = quakes_factor,
                   total_risk_factor = total,
                   should_insure = insure\<rparr>\<rparr>))))"

section \<open>Terms of the statements about scoring\<close>

text \<open>
  The distance from an event to a client location as the loop computes it; the data
  on which every such computation returns; the events within 200 km, their number,
  and the sum of their magnitudes, added up in the order of the data.
\<close>

definition distance_to :: "float_math \<Rightarrow> ClientLocation \<Rightarrow> Earthquake \<Rightarrow> error + real" where
  "distance_to m client_location e =
     haversine_distance m (latitude e) (longitude e)
       (client_latitude client_location) (client_longitude client_location)"

definition measured :: "float_math \<Rightarrow> ClientLocation \<Rightarrow> Earthquake list \<Rightarrow> bool" where
  "measured m client_location earthquake_data \<longleftrightarrow>
     (\<forall>e\<in>set earthquake_data.
        case distance_to m client_location e of Inl err \<Rightarrow> False | Inr d \<Rightarrow> True)"

definition nearby_events :: "float_math \<Rightarrow> ClientLocation \<Rightarrow> Earthquake list \<Rightarrow> Earthquake list" where
  "nearby_events m client_location earthquake_data =
     filter (\<lambda>e. case distance_to m client_location e of Inl err \<Rightarrow> False | Inr d \<Rightarrow> d \<le> 200)
       earthquake_data"

definition nearby_count :: "float_math \<Rightarrow> ClientLocation \<Rightarrow> Earthquake list \<Rightarrow> int" where
  "nearby_count m client_location earthquake_data =
     int (length (nearby_events m client_location earthquake_data))"

definition nearby_magnitude :: "float_math \<Rightarrow> ClientLocation \<Rightarrow> Earthquake list \<Rightarrow> real" where
  "nearby_magnitude m client_location earthquake_data =
     foldl (\<lambda>total e. rnd m (total + magnitude e)) 0
       (nearby_events m client_location earthquake_data)"

text \<open>
  An event, the row it is parsed from, the conversion on the cell texts of such
  rows, and a client location on the equator, used in the examples. The examples are
  evaluated in exact arithmetic.
\<close>

definition quake :: "real \<Rightarrow> real \<Rightarrow> real \<Rightarrow> Earthquake" where
  "quake mag lat lon =
     \<lparr>time = Datetime 1742203044610000, magnitude = mag, latitude = lat, longitude = lon,
      earthquake_location = \<lparr>state_name = ''California'', state_code = ''CA''\<rparr>\<rparr>"

definition quake_row :: "string \<Rightarrow> string \<Rightarrow> string \<Rightarrow> row" where
  "quake_row mag lat lon =
     [(''time'', ''2025-03-17T09:17:24.610Z''), (''latitude'', lat), (''longitude'', lon),
      (''mag'', mag), (''place'', ''22 km ESE of Anza, CA'')]"

definition small_float :: "string \<Rightarrow> real option" where
  "small_float = map_of [(''0'', 0), (''2'', 2), (''3'', 3), (''4'', 4), (''9'', 9),
     (''10'', 10), (''16'', 16), (''180'', 180)]"

definition small_strptime :: "string \<Rightarrow> datetime option" where
  "small_strptime = map_of [(''2025-03-17T09:17:24.610Z'', Datetime 1742203044610000)]"

definition site :: ClientLocation where
  "site =
     \<lparr>building_name = ''Depot'', location = ''Anza, CA'', city = ''Anza'', state = ''CA'',
      full_address = ''1 Main St, Anza, CA'', client_latitude = 0, client_longitude = 0,
      earthquake_risk = None, client_nearby_total_magnitude = None,
      client_nearby_earthquakes = None\<rparr>"

section \<open>Terms of the statements about parsing\<close>

text \<open>
  The region a row resolves to, if any; whether a column of a row is present and
  converts; and the rows the parser can read: a row has a \<^verbatim>\<open>place\<close> column, and a row
  that resolves has the four columns the constructor call reads, each in the form its
  conversion accepts. A row that does not resolve is never read further.
\<close>

definition resolved :: "string list \<Rightarrow> row \<Rightarrow> EarthquakeLocation option" where
  "resolved us_states r =
     (case map_of r ''place'' of
        None \<Rightarrow> None
      | Some place \<Rightarrow>
          (case parse_earthquake_location us_states place of
             Inr (Some loc) \<Rightarrow> Some loc
           | _ \<Rightarrow> None))"

definition readable :: "(string \<Rightarrow> 'a option) \<Rightarrow> row \<Rightarrow> string \<Rightarrow> bool" where
  "readable conv r column =
     (case map_of r column of None \<Rightarrow> False | Some s \<Rightarrow> conv s \<noteq> None)"

definition parses ::
  "(string \<Rightarrow> real option) \<Rightarrow> (string \<Rightarrow> datetime option) \<Rightarrow> string list \<Rightarrow> row \<Rightarrow> bool" where
  "parses float strptime us_states r \<longleftrightarrow>
     map_of r ''place'' \<noteq> None
     \<and> (resolved us_states r \<noteq> None \<longrightarrow>
          readable strptime r ''time'' \<and> readable float r ''mag''
          \<and> readable float r ''latitude'' \<and> readable float r ''longitude'')"

text \<open>The event the parser builds from a row that resolves.\<close>

definition event_of ::
  "(string \<Rightarrow> real option) \<Rightarrow> (string \<Rightarrow> datetime option) \<Rightarrow> string list \<Rightarrow> row
     \<Rightarrow> Earthquake option" where
  "event_of float strptime us_states r =
     (case resolved us_states r of
        None \<Rightarrow> None
      | Some loc \<Rightarrow>
          (case make_earthquake float strptime r loc of
             Inl e \<Rightarrow> None
           | Inr q \<Rightarrow> Some q))"

text \<open>
  Three rows of the repository's test response (coordinates abridged), the second of
  them with an empty \<^verbatim>\<open>mag\<close> cell, a row from Mexico without readable columns, a
  region file and the conversions on the texts of these rows (as \<^verbatim>\<open>float("")\<close> raises
  \<^verbatim>\<open>ValueError\<close>, \<open>sample_float\<close> has no value on the empty text), used in the examples.
\<close>

definition three_states :: "string list" where
  "three_states = [''CA|06|California'' @ [CHR 0x0A], ''KS|20|Kansas'' @ [CHR 0x0A],
                   ''TX|48|Texas'' @ [CHR 0x0A]]"

definition sample_float :: "string \<Rightarrow> real option" where
  "sample_float = map_of [(''2.54'', 2.54), (''3'', 3), (''2.57'', 2.57),
     (''39.4998'', 39.4998), (''-122.9502'', -122.9502), (''39.0627'', 39.0627),
     (''-98.7019'', -98.7019), (''33.4953'', 33.4953), (''-116.4495'', -116.4495)]"

definition sample_strptime :: "string \<Rightarrow> datetime option" where
  "sample_strptime = map_of [(''2025-03-17T10:31:08.290Z'', Datetime 1742207468290000),
     (''2025-03-17T09:35:00.123Z'', Datetime 1742204100123000),
     (''2025-03-17T09:17:24.610Z'', Datetime 1742203044610000)]"

definition row_pillsbury :: row where
  "row_pillsbury = [(''time'', ''2025-03-17T10:31:08.290Z''), (''latitude'', ''39.4998''),
     (''longitude'', ''-122.9502''), (''mag'', ''2.54''),
     (''place'', ''10 km NNE of Lake Pillsbury, CA'')]"

definition row_luray :: row where
  "row_luray = [(''time'', ''2025-03-17T09:35:00.123Z''), (''latitude'', ''39.0627''),
     (''longitude'', ''-98.7019''), (''mag'', ''3''), (''place'', ''5 km SSW of Luray, Kansas'')]"

definition row_anza :: row where
  "row_anza = [(''time'', ''2025-03-17T09:17:24.610Z''), (''latitude'', ''33.4953''),
     (''longitude'', ''-116.4495''), (''mag'', ''2.57''), (''place'', ''22 km ESE of Anza, CA'')]"

definition row_no_mag :: row where
  "row_no_mag = [(''time'', ''2025-03-17T09:35:00.123Z''), (''latitude'', ''39.0627''),
     (''longitude'', ''-98.7019''), (''mag'', []), (''place'', ''5 km SSW of Luray, Kansas'')]"

definition row_tecate :: row where
  "row_tecate = [(''time'', ''''), (''mag'', ''''), (''place'', ''4 km S of Tecate, Mexico'')]"

section \<open>Terms of the statements about ranking\<close>

text \<open>
  The region name of an event, its events and the position of its first event in the
  sequence; the order of the ranking: more events first, and among regions with
  equally many events the one whose first event is earlier.
  \<open>regions_consistent\<close> is the invariant of the parsed data: two events have the same
  region name exactly when they have the same region code.
\<close>

definition region_of :: "Earthquake \<Rightarrow> string" where
  "region_of e = state_name (earthquake_location e)"

definition regions_consistent :: "Earthquake list \<Rightarrow> bool" where
  "regions_consistent earthquake_data \<longleftrightarrow>
     (\<forall>a\<in>set earthquake_data. \<forall>b\<in>set earthquake_data.
        state_name (earthquake_location a) = state_name (earthquake_location b)
          \<longleftrightarrow> state_code (earthquake_location a) = state_code (earthquake_location b))"

definition events_of :: "string \<Rightarrow> Earthquake list \<Rightarrow> Earthquake list" where
  "events_of name earthquake_data = filter (\<lambda>e. region_of e = name) earthquake_data"

definition first_event :: "string \<Rightarrow> Earthquake list \<Rightarrow> nat" where
  "first_event name earthquake_data =
     length (takeWhile (\<lambda>e. region_of e \<noteq> name) earthquake_data)"

definition ranked_before :: "Earthquake list \<Rightarrow> string \<times> Rank \<Rightarrow> string \<times> Rank \<Rightarrow> bool" where
  "ranked_before earthquake_data a b \<longleftrightarrow>
     rank_count (snd a) > rank_count (snd b)
     \<or> (rank_count (snd a) = rank_count (snd b)
        \<and> first_event (fst a) earthquake_data < first_event (fst b) earthquake_data)"

text \<open>
  The distinct elements of a list in the order of their first occurrence
  (\<^const>\<open>remdups\<close> keeps the last occurrence), and the table of the loop: one entry per
  region seen, in that order.
\<close>

definition first_seen :: "'a list \<Rightarrow> 'a list" where
  "first_seen xs = rev (remdups (rev xs))"

definition tally :: "string \<Rightarrow> Earthquake list \<Rightarrow> Rank" where
  "tally name earthquake_data =
     \<lparr>rank_magnitude = sum_list (map magnitude (events_of name earthquake_data)),
      rank_count = int (length (events_of name earthquake_data))\<rparr>"

definition tallies :: "Earthquake list \<Rightarrow> (string, Rank) dict" where
  "tallies earthquake_data =
     map (\<lambda>name. (name, tally name earthquake_data)) (first_seen (map region_of earthquake_data))"

text \<open>A week of events, used in the examples.\<close>

definition event :: "string \<Rightarrow> string \<Rightarrow> real \<Rightarrow> Earthquake" where
  "event name code mag =
     \<lparr>time = Datetime 0, magnitude = mag, latitude = 0, longitude = 0,
      earthquake_location = \<lparr>state_name = name, state_code = code\<rparr>\<rparr>"

definition week :: "Earthquake list" where
  "week = [event ''Texas'' ''TX'' 3, event ''California'' ''CA'' 2, event ''Kansas'' ''KS'' 1,
           event ''Kansas'' ''KS'' 4, event ''California'' ''CA'' 2, event ''Texas'' ''TX'' 1,
           event ''Kansas'' ''KS'' 2]"

section \<open>Properties of the region tables and of place resolution\<close>

subsection \<open>Splitting and dictionaries\<close>

lemma split_from_not_Nil: "split_from sep acc s \<noteq> []"
  by (induction sep acc s rule: split_from.induct) auto

lemma str_split_not_Nil: "str_split sep s \<noteq> []"
  by (simp add: str_split_def split_from_not_Nil)

lemma pop_str_split: "pop (str_split sep s) = Inr (last (str_split sep s))"
  by (simp add: pop_def str_split_not_Nil)

lemma update_fresh: "k \<notin> fst ` set al \<Longrightarrow> AList.update k v al = al @ [(k, v)]"
  by (induction al) auto

lemma store_all_distinct:
  "distinct (map fst acc) \<Longrightarrow>
   distinct (map fst (foldl (\<lambda>d x. AList.update (f x) (g x) d) acc xs))"
  by (induction xs arbitrary: acc) (simp_all add: distinct_update)

lemma store_all_origin:
  "map_of (foldl (\<lambda>d x. AList.update (f x) (g x) d) acc xs) k = Some v \<Longrightarrow>
   (\<exists>x\<in>set xs. f x = k \<and> g x = v) \<or> map_of acc k = Some v"
proof (induction xs arbitrary: acc)
  case Nil
  then show ?case by simp
next
  case (Cons x xs)
  from Cons.IH[OF Cons.prems[simplified]]
  show ?case by (auto simp: update_conv split: if_splits)
qed

lemma store_all_other:
  "k \<notin> f ` set xs \<Longrightarrow>
   map_of (foldl (\<lambda>d x. AList.update (f x) (g x) d) acc xs) k = map_of acc k"
  by (induction xs arbitrary: acc) (auto simp: update_conv)

lemma store_all_member:
  "distinct (map f xs) \<Longrightarrow> x \<in> set xs \<Longrightarrow>
   map_of (foldl (\<lambda>d x. AList.update (f x) (g x) d) acc xs) (f x) = Some (g x)"
proof (induction xs arbitrary: acc)
  case Nil
  then show ?case by simp
next
  case (Cons y ys)
  show ?case
  proof (cases "x = y")
    case True
    with Cons.prems have "f x \<notin> f ` set ys" by auto
    then show ?thesis using True by (simp add: store_all_other update_conv)
  next
    case False
    with Cons show ?thesis by simp
  qed
qed

lemma store_all_append:
  "distinct (map fst acc @ map f xs) \<Longrightarrow>
   foldl (\<lambda>d x. AList.update (f x) (g x) d) acc xs = acc @ map (\<lambda>x. (f x, g x)) xs"
proof (induction xs arbitrary: acc)
  case Nil
  then show ?case by simp
next
  case (Cons x xs)
  from Cons.prems have fresh: "f x \<notin> fst ` set acc" by auto
  from Cons.prems have "distinct (map fst (acc @ [(f x, g x)]) @ map f xs)" by auto
  from Cons.IH[OF this] show ?case by (simp add: update_fresh[OF fresh])
qed

lemma code_to_name_map_distinct: "distinct (map fst (us_state_code_to_name_map us_states))"
  unfolding us_state_code_to_name_map_def by (rule store_all_distinct) simp

lemma name_to_code_map_eq:
  "us_state_name_to_code_map us_states =
   foldl (\<lambda>d x. AList.update (snd x) (fst x) d) [] (us_state_code_to_name_map us_states)"
  by (simp add: us_state_name_to_code_map_def case_prod_unfold)

lemma name_to_code_map_distinct: "distinct (map fst (us_state_name_to_code_map us_states))"
  unfolding name_to_code_map_eq by (rule store_all_distinct) simp

lemma name_to_code_origin:
  assumes "map_of (us_state_name_to_code_map us_states) name = Some code"
  shows "map_of (us_state_code_to_name_map us_states) code = Some name"
proof -
  from store_all_origin[OF assms[unfolded name_to_code_map_eq]]
  have "(code, name) \<in> set (us_state_code_to_name_map us_states)" by auto
  then show ?thesis by (simp add: code_to_name_map_distinct)
qed

lemma code_to_name_origin:
  assumes "distinct (map snd (us_state_code_to_name_map us_states))"
    and "map_of (us_state_code_to_name_map us_states) code = Some name"
  shows "map_of (us_state_name_to_code_map us_states) name = Some code"
proof -
  from assms(2) have "(code, name) \<in> set (us_state_code_to_name_map us_states)"
    by (rule map_of_SomeD)
  from store_all_member[OF assms(1) this, of fst "[]"]
  show ?thesis by (simp add: name_to_code_map_eq)
qed

lemma getitem_Inr: "getitem d k = Inr v \<longleftrightarrow> map_of d k = Some v"
  by (simp add: getitem_def split: option.splits)

subsection \<open>The two tables\<close>

text \<open>
  Claim C5. The name-to-code table is the code-to-name table inverted: each of its
  entries is an entry of the code-to-name table with the two sides exchanged, and
  looking up the code of a name and then the name of that code gives the name back.
  When no two codes of the file share a name (one line per region), the inverted
  table is the code-to-name table with every entry exchanged, and the two lookups are
  inverse to each other in both directions.
\<close>

theorem region_tables_inverse:
  "set (us_state_name_to_code_map us_states)
     \<subseteq> (\<lambda>(code, name). (name, code)) ` set (us_state_code_to_name_map us_states)
   \<and> (us_state_name_to_code us_states name = Inr code
        \<longrightarrow> us_state_code_to_name us_states code = Inr name)
   \<and> (distinct (map snd (us_state_code_to_name_map us_states))
        \<longrightarrow> us_state_name_to_code_map us_states
              = map (\<lambda>(code, name). (name, code)) (us_state_code_to_name_map us_states)
          \<and> (us_state_code_to_name us_states code = Inr name
               \<longleftrightarrow> us_state_name_to_code us_states name = Inr code))"
proof (intro conjI impI)
  show "set (us_state_name_to_code_map us_states)
     \<subseteq> (\<lambda>(code, name). (name, code)) ` set (us_state_code_to_name_map us_states)"
  proof
    fix p assume p: "p \<in> set (us_state_name_to_code_map us_states)"
    obtain name code where pc: "p = (name, code)" by (cases p)
    with p have "map_of (us_state_name_to_code_map us_states) name = Some code"
      by (simp add: name_to_code_map_distinct)
    then have "map_of (us_state_code_to_name_map us_states) code = Some name"
      by (rule name_to_code_origin)
    then have "(code, name) \<in> set (us_state_code_to_name_map us_states)"
      by (rule map_of_SomeD)
    then show "p \<in> (\<lambda>(code, name). (name, code)) ` set (us_state_code_to_name_map us_states)"
      unfolding pc by force
  qed
next
  assume "us_state_name_to_code us_states name = Inr code"
  then show "us_state_code_to_name us_states code = Inr name"
    by (simp add: us_state_name_to_code_def us_state_code_to_name_def getitem_Inr
          name_to_code_origin)
next
  assume d: "distinct (map snd (us_state_code_to_name_map us_states))"
  have "foldl (\<lambda>d x. AList.update (snd x) (fst x) d) [] (us_state_code_to_name_map us_states)
        = [] @ map (\<lambda>x. (snd x, fst x)) (us_state_code_to_name_map us_states)"
    by (rule store_all_append) (simp add: d)
  then show "us_state_name_to_code_map us_states
              = map (\<lambda>(code, name). (name, code)) (us_state_code_to_name_map us_states)"
    by (simp add: name_to_code_map_eq case_prod_unfold)
  show "us_state_code_to_name us_states code = Inr name
               \<longleftrightarrow> us_state_name_to_code us_states name = Inr code"
    unfolding us_state_name_to_code_def us_state_code_to_name_def getitem_Inr
    by (rule iffI) (erule code_to_name_origin[OF d], erule name_to_code_origin)
qed

theorem region_tables_inverse_witness:
  "us_state_name_to_code two_states ''Texas'' = Inr ''TX''
   \<and> us_state_code_to_name two_states ''TX'' = Inr ''Texas''
   \<and> distinct (map snd (us_state_code_to_name_map two_states))
   \<and> us_state_name_to_code_map two_states = [(''California'', ''CA''), (''Texas'', ''TX'')]"
  using region_tables_inverse [of two_states "''Texas''" "''TX''"]
  by (simp add: two_states_def us_state_name_to_code_def us_state_code_to_name_def
        us_state_name_to_code_map_def us_state_code_to_name_map_def getitem_def
        str_split_def)

subsection \<open>Place resolution\<close>

lemma parse_location_returns: "\<exists>r. parse_earthquake_location us_states place = Inr r"
  by (simp add: parse_earthquake_location_def pop_str_split lookup_state_def
        us_state_code_to_name_def us_state_name_to_code_def getitem_def
      split: sum.splits error.splits option.splits)

lemma resolved_location_in_table:
  assumes "parse_earthquake_location us_states place = Inr (Some loc)"
  shows "map_of (us_state_code_to_name_map us_states) (state_code loc) = Some (state_name loc)"
  using assms
  by (auto simp: parse_earthquake_location_def pop_str_split lookup_state_def
        us_state_code_to_name_def us_state_name_to_code_def getitem_def
        name_to_code_origin
      split: if_splits option.splits sum.splits error.splits)


text \<open>
  Claim C10. \<^verbatim>\<open>parse_earthquake_location\<close> returns for every place text and every
  region file: the split is never empty, so \<^verbatim>\<open>pop\<close> does not raise, and the only
  exception of the lookups is the \<^verbatim>\<open>KeyError\<close> that the function catches.
\<close>

theorem parse_earthquake_location_total:
  "\<exists>r. parse_earthquake_location us_states place = Inr r"
  by (rule parse_location_returns)

text \<open>
  Claim C3, as the code has it. The exclusion list has three entries, one for Canada
  and two for Mexico; a place text whose region designator is one of them resolves
  to \<^verbatim>\<open>None\<close>.
\<close>

theorem parse_earthquake_location_skipped:
  "set skipped_states = {''Canada'', ''MX'', ''Mexico''}
   \<and> (region_designator place \<in> set skipped_states
        \<longrightarrow> parse_earthquake_location us_states place = Inr None)"
  by (auto simp add: parse_earthquake_location_def pop_str_split region_designator_def
        skipped_states_def)

theorem parse_earthquake_location_skipped_witness:
  "region_designator ''10 km W of Tofino, Canada'' \<in> set skipped_states
   \<and> parse_earthquake_location two_states ''10 km W of Tofino, Canada'' = Inr None"
  using parse_earthquake_location_skipped [of "''10 km W of Tofino, Canada''" two_states]
  by (simp add: region_designator_def str_split_def skipped_states_def)

text \<open>
  The claim counts two entries for Canada. Without the two entries for Mexico the
  exclusion list holds the single entry \<^verbatim>\<open>Canada\<close>.
\<close>

theorem skipped_states_one_for_canada:
  "removeAll ''Mexico'' (removeAll ''MX'' skipped_states) = [''Canada'']"
  by (simp add: skipped_states_def)

text \<open>
  Claim C6. For a place text whose region designator is not excluded, a designator of
  exactly two characters is looked up as a code in the code-to-name table, any other
  as a name in the name-to-code table; a designator the table lacks gives \<^verbatim>\<open>None\<close>,
  and in no case does the function raise.
\<close>

theorem parse_earthquake_location_lookup:
  "region_designator place \<notin> set skipped_states \<Longrightarrow>
   parse_earthquake_location us_states place =
     Inr (if length (region_designator place) = 2
          then (case map_of (us_state_code_to_name_map us_states) (region_designator place) of
                  None \<Rightarrow> None
                | Some name \<Rightarrow> Some \<lparr>state_name = name, state_code = region_designator place\<rparr>)
          else (case map_of (us_state_name_to_code_map us_states) (region_designator place) of
                  None \<Rightarrow> None
                | Some code \<Rightarrow> Some \<lparr>state_name = region_designator place, state_code = code\<rparr>))"
  by (simp add: parse_earthquake_location_def pop_str_split region_designator_def lookup_state_def
        us_state_code_to_name_def us_state_name_to_code_def getitem_def
      split: option.splits)

theorem parse_earthquake_location_lookup_witness:
  "region_designator ''5 km WNW of Dublin, CA'' \<notin> set skipped_states
   \<and> parse_earthquake_location two_states ''5 km WNW of Dublin, CA''
       = Inr (Some \<lparr>state_name = ''California'', state_code = ''CA''\<rparr>)
   \<and> region_designator ''10 km SSW of Ackerly, Texas'' \<notin> set skipped_states
   \<and> parse_earthquake_location two_states ''10 km SSW of Ackerly, Texas''
       = Inr (Some \<lparr>state_name = ''Texas'', state_code = ''TX''\<rparr>)
   \<and> region_designator ''3 km N of Hilo, Hawaii'' \<notin> set skipped_states
   \<and> parse_earthquake_location two_states ''3 km N of Hilo, Hawaii'' = Inr None"
  using parse_earthquake_location_lookup [of "''5 km WNW of Dublin, CA''" two_states]
    parse_earthquake_location_lookup [of "''10 km SSW of Ackerly, Texas''" two_states]
    parse_earthquake_location_lookup [of "''3 km N of Hilo, Hawaii''" two_states]
  by (simp add: region_designator_def str_split_def skipped_states_def two_states_def
        us_state_name_to_code_map_def us_state_code_to_name_map_def)

section \<open>Properties of the parser\<close>

lemma readable_convert:
  assumes "readable conv r column"
  obtains s v where "getitem r column = Inr s" "convert conv s = Inr v"
  using assms by (auto simp: readable_def getitem_def convert_def split: option.splits)

lemma make_earthquake_returns:
  assumes "readable strptime r ''time''" "readable float r ''mag''"
    "readable float r ''latitude''" "readable float r ''longitude''"
  shows "\<exists>q. make_earthquake float strptime r loc = Inr q \<and> earthquake_location q = loc"
proof -
  from assms(1) obtain s1 t where 1: "getitem r ''time'' = Inr s1" "convert strptime s1 = Inr t"
    by (rule readable_convert)
  from assms(2) obtain s2 m where 2: "getitem r ''mag'' = Inr s2" "convert float s2 = Inr m"
    by (rule readable_convert)
  from assms(3) obtain s3 la where 3: "getitem r ''latitude'' = Inr s3" "convert float s3 = Inr la"
    by (rule readable_convert)
  from assms(4) obtain s4 lo where 4: "getitem r ''longitude'' = Inr s4" "convert float s4 = Inr lo"
    by (rule readable_convert)
  show ?thesis
    by (simp add: make_earthquake_def and_then_def 1 2 3 4)
qed

lemma parse_rows_step_dropped:
  assumes "map_of r ''place'' \<noteq> None" "resolved us_states r = None"
  shows "parse_rows float strptime us_states (r # rest) acc
         = parse_rows float strptime us_states rest acc"
proof -
  from assms(1) obtain place where p: "map_of r ''place'' = Some place" by auto
  obtain x where x: "parse_earthquake_location us_states place = Inr x"
    using parse_location_returns by blast
  from assms(2) p x have "x = None" by (cases x) (simp_all add: resolved_def)
  then show ?thesis by (simp add: and_then_def getitem_def p x)
qed

lemma parse_rows_step_kept:
  assumes "resolved us_states r = Some loc" "make_earthquake float strptime r loc = Inr q"
  shows "parse_rows float strptime us_states (r # rest) acc
         = parse_rows float strptime us_states rest (acc @ [q])"
proof -
  from assms(1) obtain place where p: "map_of r ''place'' = Some place"
    by (auto simp: resolved_def split: option.splits)
  from assms(1) p have "parse_earthquake_location us_states place = Inr (Some loc)"
    by (auto simp: resolved_def split: sum.splits option.splits)
  then show ?thesis by (simp add: and_then_def getitem_def p assms(2))
qed

lemma parse_rows_result:
  assumes "\<forall>r\<in>set rows. parses float strptime us_states r"
  shows "parse_rows float strptime us_states rows acc
         = Inr (acc @ List.map_filter (event_of float strptime us_states) rows)"
  using assms
proof (induction rows arbitrary: acc)
  case Nil
  then show ?case by simp
next
  case (Cons r rows)
  then have r: "parses float strptime us_states r"
    and rest: "\<forall>r\<in>set rows. parses float strptime us_states r" by simp_all
  show ?case
  proof (cases "resolved us_states r")
    case None
    with r have "map_of r ''place'' \<noteq> None" by (simp add: parses_def)
    from parse_rows_step_dropped[OF this None] Cons.IH[OF rest] None
    show ?thesis by (simp add: event_of_def del: parse_rows.simps)
  next
    case (Some loc)
    with r have "readable strptime r ''time''" "readable float r ''mag''"
      "readable float r ''latitude''" "readable float r ''longitude''"
      by (simp_all add: parses_def)
    from make_earthquake_returns[OF this, of loc]
    obtain q where q: "make_earthquake float strptime r loc = Inr q" by blast
    from parse_rows_step_kept[OF Some q] Cons.IH[OF rest] Some q
    show ?thesis by (simp add: event_of_def del: parse_rows.simps)
  qed
qed

lemma event_of_region:
  assumes "parses float strptime us_states r"
  shows "map_option earthquake_location (event_of float strptime us_states r)
         = resolved us_states r"
proof (cases "resolved us_states r")
  case None
  then show ?thesis by (simp add: event_of_def)
next
  case (Some loc)
  with assms have "readable strptime r ''time''" "readable float r ''mag''"
    "readable float r ''latitude''" "readable float r ''longitude''"
    by (simp_all add: parses_def)
  from make_earthquake_returns[OF this, of loc]
  obtain q where "make_earthquake float strptime r loc = Inr q" "earthquake_location q = loc"
    by blast
  with Some show ?thesis by (simp add: event_of_def)
qed

lemma map_filter_regions:
  assumes "\<forall>r\<in>set rows. parses float strptime us_states r"
  shows "map earthquake_location (List.map_filter (event_of float strptime us_states) rows)
         = List.map_filter (resolved us_states) rows"
  using assms
proof (induction rows)
  case Nil
  then show ?case by simp
next
  case (Cons r rows)
  then have "map_option earthquake_location (event_of float strptime us_states r)
         = resolved us_states r" by (simp add: event_of_region)
  with Cons show ?case
    by (cases "event_of float strptime us_states r"; cases "resolved us_states r")
       simp_all
qed

lemma length_map_filter:
  "length (List.map_filter f xs) = length (filter (\<lambda>x. f x \<noteq> None) xs)"
  by (simp add: List.map_filter_def)

lemma length_filter_split:
  "length (filter P xs) + length (filter (\<lambda>x. \<not> P x) xs) = length xs"
  by (induction xs) simp_all

text \<open>
  Claim C7, as the code has it. On rows the parser can read (\<open>parses\<close>),
  \<^verbatim>\<open>parse_raw_earthquake_data\<close> returns one event
  for each row whose place text resolves, in the order of the rows and with the
  region of its row, and nothing for a row whose place text does not resolve: the
  number of events is the number of rows that resolve, and with the number of rows
  that do not it adds up to the number of rows.
\<close>

theorem parse_keeps_resolved_rows:
  assumes "\<forall>r\<in>set rows. parses float strptime us_states r"
  shows "\<exists>events. parse_raw_earthquake_data float strptime us_states rows = Inr events
     \<and> events = List.map_filter (event_of float strptime us_states) rows
     \<and> map earthquake_location events = List.map_filter (resolved us_states) rows
     \<and> length events = length (filter (\<lambda>r. resolved us_states r \<noteq> None) rows)
     \<and> length events + length (filter (\<lambda>r. resolved us_states r = None) rows) = length rows"
proof -
  let ?events = "List.map_filter (event_of float strptime us_states) rows"
  have 1: "parse_raw_earthquake_data float strptime us_states rows = Inr ?events"
    by (simp add: parse_raw_earthquake_data_def parse_rows_result[OF assms])
  have 2: "map earthquake_location ?events = List.map_filter (resolved us_states) rows"
    by (rule map_filter_regions[OF assms])
  have "length ?events = length (map earthquake_location ?events)" by simp
  also have "\<dots> = length (filter (\<lambda>r. resolved us_states r \<noteq> None) rows)"
    unfolding 2 by (rule length_map_filter)
  finally have 3: "length ?events = length (filter (\<lambda>r. resolved us_states r \<noteq> None) rows)" .
  have 4: "length ?events + length (filter (\<lambda>r. resolved us_states r = None) rows) = length rows"
    unfolding 3 using length_filter_split[of "\<lambda>r. resolved us_states r \<noteq> None" rows] by simp
  from 1 2 3 4 show ?thesis by blast
qed

lemma sample_rows_resolved:
  "resolved three_states row_pillsbury = Some \<lparr>state_name = ''California'', state_code = ''CA''\<rparr>"
  "resolved three_states row_luray = Some \<lparr>state_name = ''Kansas'', state_code = ''KS''\<rparr>"
  "resolved three_states row_anza = Some \<lparr>state_name = ''California'', state_code = ''CA''\<rparr>"
  "resolved three_states row_tecate = None"
  by (simp_all add: resolved_def row_pillsbury_def row_luray_def row_anza_def row_tecate_def
        parse_earthquake_location_def pop_def str_split_def skipped_states_def lookup_state_def
        us_state_code_to_name_def us_state_name_to_code_def us_state_name_to_code_map_def
        us_state_code_to_name_map_def getitem_def three_states_def)

lemma sample_rows_parse:
  "parses sample_float sample_strptime three_states row_pillsbury"
  "parses sample_float sample_strptime three_states row_luray"
  "parses sample_float sample_strptime three_states row_anza"
  "parses sample_float sample_strptime three_states row_tecate"
  unfolding parses_def sample_rows_resolved
  by (simp_all add: readable_def row_pillsbury_def row_luray_def row_anza_def row_tecate_def
        sample_float_def sample_strptime_def)

text \<open>
  The three rows of the test give three events; with the second replaced by the row
  from Mexico they give two.
\<close>

theorem parse_keeps_resolved_rows_witness:
  "(\<exists>events. parse_raw_earthquake_data sample_float sample_strptime three_states
                  [row_pillsbury, row_luray, row_anza] = Inr events
        \<and> length events = 3
        \<and> map earthquake_location events
            = [\<lparr>state_name = ''California'', state_code = ''CA''\<rparr>,
               \<lparr>state_name = ''Kansas'', state_code = ''KS''\<rparr>,
               \<lparr>state_name = ''California'', state_code = ''CA''\<rparr>])
   \<and> (\<exists>events. parse_raw_earthquake_data sample_float sample_strptime three_states
                  [row_pillsbury, row_tecate, row_anza] = Inr events
        \<and> length events = 2
        \<and> map earthquake_location events
            = [\<lparr>state_name = ''California'', state_code = ''CA''\<rparr>,
               \<lparr>state_name = ''California'', state_code = ''CA''\<rparr>])"
proof -
  have a: "\<forall>r\<in>set [row_pillsbury, row_luray, row_anza].
             parses sample_float sample_strptime three_states r"
    and b: "\<forall>r\<in>set [row_pillsbury, row_tecate, row_anza].
             parses sample_float sample_strptime three_states r"
    by (simp_all add: sample_rows_parse)
  from parse_keeps_resolved_rows [OF a] parse_keeps_resolved_rows [OF b]
  show ?thesis by (simp add: sample_rows_resolved List.map_filter_simps)
qed

text \<open>
  Without the condition on the rows the parser need not return: a row whose place
  text resolves and whose \<^verbatim>\<open>mag\<close> cell is empty makes \<^verbatim>\<open>float\<close> raise, and the call
  yields no events at all.
\<close>

theorem parse_raises_counterexample:
  "resolved three_states row_no_mag = Some \<lparr>state_name = ''Kansas'', state_code = ''KS''\<rparr>
   \<and> parse_raw_earthquake_data sample_float sample_strptime three_states
         [row_pillsbury, row_no_mag, row_anza] = Inl ValueError"
  by (simp add: resolved_def row_pillsbury_def row_no_mag_def row_anza_def
        parse_raw_earthquake_data_def make_earthquake_def convert_def and_then_def
        sample_float_def sample_strptime_def
        parse_earthquake_location_def pop_def str_split_def skipped_states_def lookup_state_def
        us_state_code_to_name_def us_state_name_to_code_def us_state_name_to_code_map_def
        us_state_code_to_name_map_def getitem_def three_states_def)

section \<open>Properties of the ranking\<close>

subsection \<open>The loop builds the table of tallies\<close>

lemma first_seen_snoc:
  "first_seen (xs @ [x]) = (if x \<in> set xs then first_seen xs else first_seen xs @ [x])"
  by (simp add: first_seen_def)

lemma set_first_seen: "set (first_seen xs) = set xs"
  by (simp add: first_seen_def)

lemma distinct_first_seen: "distinct (first_seen xs)"
  by (simp add: first_seen_def)

lemma tally_snoc:
  "tally name (p @ [e]) =
     (if region_of e = name
      then \<lparr>rank_magnitude = rank_magnitude (tally name p) + magnitude e,
            rank_count = rank_count (tally name p) + 1\<rparr>
      else tally name p)"
  by (simp add: tally_def events_of_def)

lemma tally_first:
  "region_of e \<notin> region_of ` set p \<Longrightarrow>
   tally (region_of e) (p @ [e]) = \<lparr>rank_magnitude = magnitude e, rank_count = 1\<rparr>"
proof -
  assume "region_of e \<notin> region_of ` set p"
  then have "\<forall>a\<in>set p. region_of a \<noteq> region_of e"
    by (metis imageI)
  then have "filter (\<lambda>a. region_of a = region_of e) p = []"
    by (simp add: filter_empty_conv)
  then show ?thesis by (simp add: tally_def events_of_def)
qed

lemma update_present:
  "distinct ns \<Longrightarrow> k \<in> set ns \<Longrightarrow>
   AList.update k v (map (\<lambda>n. (n, f n)) ns) = map (\<lambda>n. (n, if n = k then v else f n)) ns"
proof (induction ns)
  case Nil
  then show ?case by simp
next
  case (Cons n ns)
  show ?case
  proof (cases "n = k")
    case True
    with Cons.prems have "k \<notin> set ns" by simp
    then have "map (\<lambda>n. (n, if n = k then v else f n)) ns = map (\<lambda>n. (n, f n)) ns"
      by (intro map_cong) auto
    with True show ?thesis by simp
  next
    case False
    with Cons show ?thesis by simp
  qed
qed

lemma map_of_tallies:
  "map_of (tallies p) name = (if name \<in> region_of ` set p then Some (tally name p) else None)"
  by (simp add: tallies_def map_of_map_restrict restrict_map_def set_first_seen)

lemma tallies_snoc_seen:
  assumes "region_of e \<in> region_of ` set p"
  shows "AList.update (region_of e)
           \<lparr>rank_magnitude = rank_magnitude (tally (region_of e) p) + magnitude e,
            rank_count = rank_count (tally (region_of e) p) + 1\<rparr> (tallies p)
         = tallies (p @ [e])"
proof -
  from assms have in_set: "region_of e \<in> set (first_seen (map region_of p))"
    by (simp add: set_first_seen)
  from assms have fs: "first_seen (map region_of (p @ [e])) = first_seen (map region_of p)"
    by (simp add: first_seen_snoc)
  show ?thesis
    unfolding tallies_def fs update_present[OF distinct_first_seen in_set]
    by (rule map_cong) (auto simp: tally_snoc)
qed

lemma tallies_snoc_new:
  assumes "region_of e \<notin> region_of ` set p"
  shows "AList.update (region_of e) \<lparr>rank_magnitude = magnitude e, rank_count = 1\<rparr> (tallies p)
         = tallies (p @ [e])"
proof -
  from assms have fresh: "region_of e \<notin> fst ` set (tallies p)"
    by (auto simp: tallies_def set_first_seen)
  from assms have fs: "first_seen (map region_of p @ [region_of e])
      = first_seen (map region_of p) @ [region_of e]"
    by (simp add: first_seen_snoc)
  have old: "map (\<lambda>name. (name, tally name (p @ [e]))) (first_seen (map region_of p))
        = map (\<lambda>name. (name, tally name p)) (first_seen (map region_of p))"
    using assms by (intro map_cong) (auto simp: tally_snoc set_first_seen)
  have "tallies (p @ [e]) = tallies p @ [(region_of e, tally (region_of e) (p @ [e]))]"
    unfolding tallies_def map_append list.map fs old ..
  then show ?thesis
    unfolding update_fresh[OF fresh] by (simp only: tally_first[OF assms])
qed

lemma regions_consistentD:
  "regions_consistent data \<Longrightarrow> a \<in> set data \<Longrightarrow> b \<in> set data \<Longrightarrow>
   (state_code (earthquake_location a) = state_code (earthquake_location b))
     = (region_of a = region_of b)"
  by (auto simp: regions_consistent_def region_of_def)

lemma rank_loop_tallies:
  assumes "regions_consistent (p @ es)"
    and "set seen = (\<lambda>e. state_code (earthquake_location e)) ` set p"
  shows "\<exists>seen'. rank_loop es (tallies p, seen) = Inr (tallies (p @ es), seen')"
  using assms
proof (induction es arbitrary: p seen)
  case Nil
  then show ?case by simp
next
  case (Cons e es)
  let ?code = "state_code (earthquake_location e)"
  have name: "state_name (earthquake_location e) = region_of e" by (simp add: region_of_def)
  from Cons.prems(1) have cons': "regions_consistent ((p @ [e]) @ es)" by simp
  have seen_iff: "?code \<in> set seen \<longleftrightarrow> region_of e \<in> region_of ` set p"
  proof
    assume "?code \<in> set seen"
    with Cons.prems(2) obtain a where a: "a \<in> set p" "state_code (earthquake_location a) = ?code"
      by auto
    with regions_consistentD[OF Cons.prems(1), of a e] have "region_of a = region_of e" by simp
    with a show "region_of e \<in> region_of ` set p" by (metis imageI)
  next
    assume "region_of e \<in> region_of ` set p"
    then obtain a where a: "a \<in> set p" "region_of a = region_of e" by auto
    with regions_consistentD[OF Cons.prems(1), of a e]
    have "state_code (earthquake_location a) = ?code" by simp
    with a Cons.prems(2) show "?code \<in> set seen" by (metis imageI)
  qed
  show ?case
  proof (cases "?code \<in> set seen")
    case True
    then have r: "region_of e \<in> region_of ` set p" by (simp add: seen_iff)
    have seen': "set seen = (\<lambda>e. state_code (earthquake_location e)) ` set (p @ [e])"
      using True Cons.prems(2) by auto
    from Cons.IH[OF cons' seen'] obtain s' where
      "rank_loop es (tallies (p @ [e]), seen) = Inr (tallies (p @ e # es), s')" by auto
    then show ?thesis
      using True r by (simp add: name and_then_def getitem_def map_of_tallies tallies_snoc_seen)
  next
    case False
    then have r: "region_of e \<notin> region_of ` set p" by (simp add: seen_iff)
    have seen': "set (seen @ [?code]) = (\<lambda>e. state_code (earthquake_location e)) ` set (p @ [e])"
      using Cons.prems(2) by auto
    from Cons.IH[OF cons' seen'] obtain s' where
      "rank_loop es (tallies (p @ [e]), seen @ [?code]) = Inr (tallies (p @ e # es), s')" by auto
    then show ?thesis
      using False r by (simp add: name tallies_snoc_new)
  qed
qed

lemma distinct_keys_tallies: "distinct (map fst (tallies data))"
  by (simp add: tallies_def comp_def distinct_first_seen)

lemma risk_rank_sorted_tallies:
  assumes "regions_consistent data"
  shows "risk_rank_by_state data = Inr (sort_key (\<lambda>i. - rank_count (snd i)) (tallies data))"
proof -
  let ?sorted = "sort_key (\<lambda>i. - rank_count (snd i)) (tallies data)"
  have "tallies [] = []" by (simp add: tallies_def first_seen_def)
  with rank_loop_tallies[of "[]" data "[]"] assms
  obtain s' where loop: "rank_loop data ([], []) = Inr (tallies data, s')" by auto
  have "distinct (map fst ?sorted)"
    using distinct_keys_tallies[of data] by (simp add: distinct_map)
  then have "foldl (\<lambda>d x. AList.update (fst x) (snd x) d) [] ?sorted
             = [] @ map (\<lambda>x. (fst x, snd x)) ?sorted"
    by (intro store_all_append) simp
  then have "foldl (\<lambda>d (k, v). AList.update k v d) [] ?sorted = ?sorted"
    by (simp add: case_prod_unfold)
  with loop show ?thesis by (simp add: risk_rank_by_state_def and_then_def)
qed


subsection \<open>The sort\<close>

lemma takeWhile_stops: "a \<in> set xs \<Longrightarrow> length (takeWhile (\<lambda>y. y \<noteq> a) xs) < length xs"
  by (induction xs) auto

lemma first_seen_increasing:
  "sorted_wrt (\<lambda>a b. length (takeWhile (\<lambda>y. y \<noteq> a) xs) < length (takeWhile (\<lambda>y. y \<noteq> b) xs))
     (first_seen xs)"
proof (induction xs rule: rev_induct)
  case Nil
  then show ?case by (simp add: first_seen_def)
next
  case (snoc x xs)
  have keep: "takeWhile (\<lambda>y. y \<noteq> a) (xs @ [x]) = takeWhile (\<lambda>y. y \<noteq> a) xs"
    if "a \<in> set xs" for a
    using that by (intro takeWhile_append1[of a]) auto
  have old: "sorted_wrt (\<lambda>a b. length (takeWhile (\<lambda>y. y \<noteq> a) (xs @ [x]))
                              < length (takeWhile (\<lambda>y. y \<noteq> b) (xs @ [x]))) (first_seen xs)"
    using snoc.IH
    by (rule sorted_wrt_mono_rel[rotated]) (simp add: set_first_seen keep)
  show ?case
  proof (cases "x \<in> set xs")
    case True
    with old show ?thesis by (simp add: first_seen_snoc)
  next
    case False
    then have last: "takeWhile (\<lambda>y. y \<noteq> x) (xs @ [x]) = xs"
      by (subst takeWhile_append2) auto
    have "length (takeWhile (\<lambda>y. y \<noteq> a) (xs @ [x])) < length xs" if "a \<in> set xs" for a
      unfolding keep[OF that] using that by (rule takeWhile_stops)
    with old False show ?thesis
      by (simp add: first_seen_snoc sorted_wrt_append last set_first_seen)
  qed
qed

lemma insort_key_lex:
  fixes f :: "'a \<Rightarrow> int"
  assumes "sorted_wrt (\<lambda>a b. f a < f b \<or> (f a = f b \<and> R a b)) ys"
    and "\<forall>y\<in>set ys. R x y"
  shows "sorted_wrt (\<lambda>a b. f a < f b \<or> (f a = f b \<and> R a b)) (insort_key f x ys)"
  using assms
proof (induction ys)
  case Nil
  then show ?case by simp
next
  case (Cons y ys)
  show ?case
  proof (cases "f x \<le> f y")
    case True
    from Cons.prems(1) have "\<forall>z\<in>set ys. f y \<le> f z" by auto
    with True have "\<forall>z\<in>set (y # ys). f x \<le> f z" by auto
    with Cons.prems(2) have "\<forall>z\<in>set (y # ys). f x < f z \<or> (f x = f z \<and> R x z)"
      by (metis le_less)
    with True Cons.prems(1) show ?thesis by simp
  next
    case False
    from Cons.prems have "sorted_wrt (\<lambda>a b. f a < f b \<or> (f a = f b \<and> R a b)) (insort_key f x ys)"
      by (intro Cons.IH) simp_all
    with False Cons.prems(1) show ?thesis by (auto simp: set_insort_key)
  qed
qed

lemma sort_key_lex:
  fixes f :: "'a \<Rightarrow> int"
  assumes "sorted_wrt R xs"
  shows "sorted_wrt (\<lambda>a b. f a < f b \<or> (f a = f b \<and> R a b)) (sort_key f xs)"
  using assms
proof (induction xs)
  case Nil
  then show ?case by simp
next
  case (Cons x xs)
  then show ?case by (simp add: sort_key_simps insort_key_lex)
qed

lemma first_event_names:
  "first_event name data = length (takeWhile (\<lambda>y. y \<noteq> name) (map region_of data))"
  by (simp add: first_event_def takeWhile_map comp_def)

lemma tallies_by_first_event:
  "sorted_wrt (\<lambda>a b. first_event (fst a) data < first_event (fst b) data) (tallies data)"
  unfolding tallies_def sorted_wrt_map first_event_names
  using first_seen_increasing[of "map region_of data"] by simp

lemma ranked_before_lex:
  "ranked_before data =
     (\<lambda>a b. - rank_count (snd a) < - rank_count (snd b)
            \<or> (- rank_count (snd a) = - rank_count (snd b)
               \<and> first_event (fst a) data < first_event (fst b) data))"
  by (auto simp: ranked_before_def fun_eq_iff)

subsection \<open>The parsed data is consistent\<close>

text \<open>
  Every event of the parser carries a code and a name that the code-to-name table
  relates, so with a region file in which no two codes share a name the events of
  \<^verbatim>\<open>parse_raw_earthquake_data\<close> are \<open>regions_consistent\<close>.
\<close>

lemma make_earthquake_location:
  "make_earthquake float strptime r loc = Inr q \<Longrightarrow> earthquake_location q = loc"
  by (auto simp: make_earthquake_def and_then_def split: sum.splits)

lemma parse_rows_locations:
  assumes "\<forall>q\<in>set acc. map_of (us_state_code_to_name_map us_states)
             (state_code (earthquake_location q)) = Some (state_name (earthquake_location q))"
    and "parse_rows float strptime us_states rows acc = Inr events"
  shows "\<forall>q\<in>set events. map_of (us_state_code_to_name_map us_states)
             (state_code (earthquake_location q)) = Some (state_name (earthquake_location q))"
  using assms
proof (induction rows arbitrary: acc)
  case Nil
  then show ?case by simp
next
  case (Cons r rows)
  from Cons.prems(2) obtain place x where
    p: "getitem r ''place'' = Inr place" "parse_earthquake_location us_states place = Inr x"
    by (auto simp: and_then_def split: sum.splits)
  show ?case
  proof (cases x)
    case None
    with Cons.prems(2) p have "parse_rows float strptime us_states rows acc = Inr events"
      by (simp add: and_then_def)
    from Cons.IH[OF Cons.prems(1) this] show ?thesis .
  next
    case (Some loc)
    with Cons.prems(2) p obtain q where
      q: "make_earthquake float strptime r loc = Inr q"
         "parse_rows float strptime us_states rows (acc @ [q]) = Inr events"
      by (auto simp: and_then_def split: sum.splits)
    from q(1) have "earthquake_location q = loc" by (rule make_earthquake_location)
    with resolved_location_in_table[of us_states place loc] p(2) Some Cons.prems(1)
    have "\<forall>q\<in>set (acc @ [q]). map_of (us_state_code_to_name_map us_states)
             (state_code (earthquake_location q)) = Some (state_name (earthquake_location q))"
      by simp
    from Cons.IH[OF this q(2)] show ?thesis .
  qed
qed

lemma distinct_values_key:
  assumes "distinct (map snd al)" "map_of al k1 = Some v" "map_of al k2 = Some v"
  shows "k1 = k2"
proof -
  from assms(1) have inj: "inj_on snd (set al)" by (simp add: distinct_map)
  from assms(2) have 1: "(k1, v) \<in> set al" by (rule map_of_SomeD)
  from assms(3) have 2: "(k2, v) \<in> set al" by (rule map_of_SomeD)
  from inj_onD[OF inj _ 1 2] show ?thesis by simp
qed

lemma parsed_regions_consistent:
  assumes "distinct (map snd (us_state_code_to_name_map us_states))"
    and "parse_raw_earthquake_data float strptime us_states rows = Inr events"
  shows "regions_consistent events"
proof -
  have "\<forall>q\<in>set []. map_of (us_state_code_to_name_map us_states)
             (state_code (earthquake_location q)) = Some (state_name (earthquake_location q))"
    by simp
  moreover from assms(2) have "parse_rows float strptime us_states rows [] = Inr events"
    by (simp only: parse_raw_earthquake_data_def)
  ultimately have
    t: "\<forall>q\<in>set events. map_of (us_state_code_to_name_map us_states)
             (state_code (earthquake_location q)) = Some (state_name (earthquake_location q))"
    by (rule parse_rows_locations)
  show ?thesis
    unfolding regions_consistent_def
  proof (intro ballI iffI)
    fix a b assume ab: "a \<in> set events" "b \<in> set events"
    from t ab have
      ta: "map_of (us_state_code_to_name_map us_states) (state_code (earthquake_location a))
             = Some (state_name (earthquake_location a))"
      and tb: "map_of (us_state_code_to_name_map us_states) (state_code (earthquake_location b))
             = Some (state_name (earthquake_location b))"
      by blast+
    {
      assume "state_name (earthquake_location a) = state_name (earthquake_location b)"
      with ta tb show "state_code (earthquake_location a) = state_code (earthquake_location b)"
        by (simp add: distinct_values_key[OF assms(1)])
    next
      assume "state_code (earthquake_location a) = state_code (earthquake_location b)"
      with ta tb show "state_name (earthquake_location a) = state_name (earthquake_location b)"
        by simp
    }
  qed
qed

subsection \<open>The ranking\<close>

text \<open>
  Claim C4. On data in which name and code of a region go together,
  \<^verbatim>\<open>risk_rank_by_state\<close> returns a dictionary with one entry per region name of the
  data; the entry of a region counts its events and sums their magnitudes; the
  entries are in descending order of count, and of two regions with the same count
  the one whose first event is earlier in the data comes first.
\<close>

theorem risk_rank_by_state_ranking:
  assumes "regions_consistent earthquake_data"
  shows "\<exists>ranking. risk_rank_by_state earthquake_data = Inr ranking
     \<and> distinct (map fst ranking)
     \<and> set (map fst ranking) = region_of ` set earthquake_data
     \<and> (\<forall>(name, r)\<in>set ranking.
           rank_count r = int (length (events_of name earthquake_data))
           \<and> rank_magnitude r = sum_list (map magnitude (events_of name earthquake_data)))
     \<and> sorted_wrt (ranked_before earthquake_data) ranking"
proof -
  let ?ranking = "sort_key (\<lambda>i. - rank_count (snd i)) (tallies earthquake_data)"
  have 1: "risk_rank_by_state earthquake_data = Inr ?ranking"
    by (rule risk_rank_sorted_tallies[OF assms])
  have 2: "distinct (map fst ?ranking)"
    using distinct_keys_tallies[of earthquake_data] by (simp add: distinct_map)
  have 3: "set (map fst ?ranking) = region_of ` set earthquake_data"
    by (simp add: tallies_def set_first_seen image_comp comp_def)
  have 4: "\<forall>(name, r)\<in>set ?ranking.
           rank_count r = int (length (events_of name earthquake_data))
           \<and> rank_magnitude r = sum_list (map magnitude (events_of name earthquake_data))"
    by (auto simp: tallies_def tally_def)
  have 5: "sorted_wrt (ranked_before earthquake_data) ?ranking"
    unfolding ranked_before_lex by (rule sort_key_lex[OF tallies_by_first_event])
  from 1 2 3 4 5 show ?thesis by blast
qed

lemma week_ranking: "risk_rank_by_state week =
     Inr [(''Kansas'', \<lparr>rank_magnitude = 7, rank_count = 3\<rparr>),
          (''Texas'', \<lparr>rank_magnitude = 4, rank_count = 2\<rparr>),
          (''California'', \<lparr>rank_magnitude = 4, rank_count = 2\<rparr>)]"
  by (simp add: risk_rank_by_state_def week_def event_def and_then_def getitem_def sort_key_simps)

lemma week_consistent: "regions_consistent week"
  by (simp add: regions_consistent_def week_def event_def)

text \<open>
  Texas and California have two events each; Texas comes first in the data and in
  the ranking.
\<close>

theorem risk_rank_by_state_ranking_witness:
  "\<exists>ranking. risk_rank_by_state week = Inr ranking
     \<and> map fst ranking = [''Kansas'', ''Texas'', ''California'']
     \<and> map (rank_count \<circ> snd) ranking = [3, 2, 2]
     \<and> map (rank_magnitude \<circ> snd) ranking = [7, 4, 4]
     \<and> sorted_wrt (ranked_before week) ranking"
  using risk_rank_by_state_ranking [OF week_consistent]
  by (auto simp: week_ranking)

section \<open>Properties of the distance\<close>

subsection \<open>Exact arithmetic never leaves the domain of the square root\<close>

lemma sin_sq_half: "(sin (x / 2))\<^sup>2 = (1 - cos x) / (2::real)"
  using cos_double_sin[of "x/2"] by simp

lemma chord_bounds: "0 \<le> chord a b c d \<and> chord a b c d \<le> 1"
proof -
  define p where "p = radians a"
  define q where "q = radians c"
  define s where "s = (sin ((radians d - radians b) / 2))\<^sup>2"
  define X where "X = (1 - cos (q - p)) / 2"
  define Y where "Y = (1 + cos (q + p)) / 2"
  have s: "0 \<le> s" "s \<le> 1"
    unfolding s_def by (simp_all add: abs_square_le_1)
  have "0 \<le> 1 - cos (q - p)" "1 - cos (q - p) \<le> 2"
    using cos_le_one[of "q - p"] cos_ge_minus_one[of "q - p"] by linarith+
  then have X: "0 \<le> X" "X \<le> 1"
    unfolding X_def by simp_all
  have "0 \<le> 1 + cos (q + p)" "1 + cos (q + p) \<le> 2"
    using cos_le_one[of "q + p"] cos_ge_minus_one[of "q + p"] by linarith+
  then have Y: "0 \<le> Y" "Y \<le> 1"
    unfolding Y_def by simp_all
  have c: "chord a b c d = X + cos p * cos q * s"
    unfolding chord_def p_def q_def s_def X_def
    using sin_sq_half[of "radians c - radians a"] by simp
  have k: "cos p * cos q = Y - X"
    unfolding X_def Y_def by (simp add: cos_diff cos_add field_simps)
  have e: "chord a b c d = (1 - s) * X + s * Y"
    unfolding c k by (simp add: algebra_simps)
  have "0 \<le> (1 - s) * X + s * Y"
    using s X Y by (intro add_nonneg_nonneg mult_nonneg_nonneg) simp_all
  moreover have "(1 - s) * X + s * Y \<le> (1 - s) * 1 + s * 1"
    using s X Y by (intro add_mono mult_left_mono) simp_all
  ultimately show ?thesis unfolding e by simp
qed

lemma haversine_exact:
  "haversine_distance exact_math a b c d
   = Inr (RADIUS_OF_EARTH * (2 * atan2 (sqrt (chord a b c d)) (sqrt (1 - chord a b c d))))"
proof -
  have "\<not> chord a b c d < 0" "\<not> 1 - chord a b c d < 0"
    using chord_bounds[of a b c d] by simp_all
  then show ?thesis
    by (simp add: haversine_distance_def exact_math_def math_sqrt_def and_then_def Let_def
          chord_def)
qed

lemma distance_same_point: "haversine_distance exact_math a b a b = Inr 0"
  by (simp add: haversine_exact chord_def atan2_def)

lemma distance_antipodes: "haversine_distance exact_math 0 180 0 0 = Inr (6371 * pi)"
  by (simp add: haversine_exact chord_def atan2_def radians_def RADIUS_OF_EARTH_def)

lemma antipodes_far: "\<not> 6371 * pi \<le> (200::real)"
proof -
  have "200 < 6371 * (2::real)" by simp
  also have "\<dots> \<le> 6371 * pi" using pi_ge_two by simp
  finally show ?thesis by simp
qed

subsection \<open>The comparison\<close>

lemma is_within_distance_cases:
  "is_within_distance m latitude_1 longitude_1 latitude_2 longitude_2 limit_distance
   = (case haversine_distance m latitude_1 longitude_1 latitude_2 longitude_2 of
        Inl e \<Rightarrow> Inl e
      | Inr haver_distance \<Rightarrow> Inr (haver_distance \<le> limit_distance))"
  by (simp add: is_within_distance_def and_then_def)

subsection \<open>One computation in double precision\<close>

lemma double_diff_latitude:
  "rnd double_math (f_radians double_math (- lat_2_6) - f_radians double_math lat_2_6)
   = - (6539739788541847 / 72057594037927936)"
  by (simp add: double_math_def lat_2_6_def)

lemma double_diff_longitude:
  "rnd double_math (f_radians double_math 168 - f_radians double_math (- 12))
   = 884279719003555 / 281474976710656"
  by (simp add: double_math_def lat_2_6_def)

lemma double_sin_latitude:
  "rnd double_math ((f_sin double_math (rnd double_math (- (6539739788541847 / 72057594037927936) / 2)))\<^sup>2)
   = 4744965340037473 / 2305843009213693952"
  by (simp add: double_math_def power2_eq_square)

lemma double_sin_longitude:
  "rnd double_math ((f_sin double_math (rnd double_math (884279719003555 / 281474976710656 / 2)))\<^sup>2)
   = 1"
  by (simp add: double_math_def)

lemma double_cos:
  "rnd double_math (f_cos double_math (f_radians double_math lat_2_6)
                    * f_cos double_math (f_radians double_math (- lat_2_6)))
   = 70223939327199 / 70368744177664"
  by (simp add: double_math_def lat_2_6_def)

lemma double_chord:
  "rnd double_math (4744965340037473 / 2305843009213693952
                    + rnd double_math (70223939327199 / 70368744177664 * 1))
   = 4503599627370497 / 4503599627370496"
  by (simp add: double_math_def)

lemma double_rest:
  "rnd double_math (1 - 4503599627370497 / 4503599627370496) = - (1 / 4503599627370496)"
  by (simp add: double_math_def)

lemma haversine_double_raises:
  "haversine_distance double_math lat_2_6 (- 12) (- lat_2_6) 168 = Inl ValueError"
  unfolding haversine_distance_def Let_def
    double_diff_latitude double_diff_longitude double_sin_latitude double_sin_longitude
    double_cos double_chord double_rest
  by (simp add: math_sqrt_def and_then_def)

text \<open>
  Claim C9 on the code. Where \<^verbatim>\<open>haversine_distance\<close> returns, \<^verbatim>\<open>is_within_distance\<close> is
  the comparison of the claim (lemma \<open>is_within_distance_cases\<close>). But for the two
  points of latitude 2.6, longitude -12 and latitude -2.6, longitude 168, nearly
  antipodal, the floats give a \<^verbatim>\<open>chord\<close> above 1 by one unit in the last place, and
  \<^verbatim>\<open>math.sqrt(1 - chord)\<close> raises: \<^verbatim>\<open>is_within_distance\<close> raises \<^verbatim>\<open>ValueError\<close> for every
  limit and returns neither true nor false, where the claim has it return false for
  the limit 200.
\<close>

theorem is_within_distance_raises:
  "is_within_distance double_math lat_2_6 (- 12) (- lat_2_6) 168 200 = Inl ValueError"
  by (simp add: is_within_distance_cases haversine_double_raises)

section \<open>Properties of the scorer\<close>

subsection \<open>The loop\<close>

lemma nearby_acc:
  assumes "measured m cl data"
  shows "nearby m cl data (t, n)
         = Inr (foldl (\<lambda>total e. rnd m (total + magnitude e)) t (nearby_events m cl data),
                n + nearby_count m cl data)"
  using assms
proof (induction data arbitrary: t n)
  case Nil
  then show ?case by (simp add: nearby_count_def nearby_events_def)
next
  case (Cons e es)
  from Cons.prems have rest: "measured m cl es" by (simp add: measured_def)
  from Cons.prems obtain d where d: "distance_to m cl e = Inr d"
    by (auto simp: measured_def split: sum.splits)
  then have w: "is_within_distance m (latitude e) (longitude e) (client_latitude cl)
                  (client_longitude cl) NEARBY_EARTHQUAKE_RADIUS_KM = Inr (d \<le> 200)"
    by (simp add: is_within_distance_cases distance_to_def NEARBY_EARTHQUAKE_RADIUS_KM_def)
  show ?case
    by (simp add: w and_then_def Cons.IH[OF rest])
       (simp add: nearby_count_def nearby_events_def d)
qed

lemma nearby_start:
  "measured m cl data \<Longrightarrow>
   nearby m cl data (0, 0) = Inr (nearby_magnitude m cl data, nearby_count m cl data)"
  by (simp add: nearby_acc nearby_magnitude_def)

lemma nearby_count_nonneg: "0 \<le> nearby_count m cl data"
  by (simp add: nearby_count_def)

subsection \<open>The examples\<close>

lemma quake_row_event:
  assumes "small_float mag_text = Some mag" "small_float lat_text = Some lat"
    "small_float lon_text = Some lon"
  shows "event_of small_float small_strptime two_states (quake_row mag_text lat_text lon_text)
         = Some (quake mag lat lon)"
    and "parses small_float small_strptime two_states (quake_row mag_text lat_text lon_text)"
proof -
  have r: "resolved two_states (quake_row mag_text lat_text lon_text)
           = Some \<lparr>state_name = ''California'', state_code = ''CA''\<rparr>"
    by (simp add: resolved_def quake_row_def parse_earthquake_location_def pop_def
          str_split_def skipped_states_def lookup_state_def us_state_code_to_name_def
          us_state_code_to_name_map_def getitem_def two_states_def)
  show "event_of small_float small_strptime two_states (quake_row mag_text lat_text lon_text)
         = Some (quake mag lat lon)"
    unfolding event_of_def r
    by (simp add: make_earthquake_def and_then_def getitem_def convert_def quake_row_def
          quake_def small_strptime_def assms)
  show "parses small_float small_strptime two_states (quake_row mag_text lat_text lon_text)"
    unfolding parses_def r
    by (simp add: readable_def quake_row_def small_strptime_def assms)
qed

lemma small_float_values:
  "small_float ''0'' = Some 0" "small_float ''2'' = Some 2" "small_float ''3'' = Some 3"
  "small_float ''4'' = Some 4" "small_float ''9'' = Some 9" "small_float ''10'' = Some 10"
  "small_float ''16'' = Some 16" "small_float ''180'' = Some 180"
  by (simp_all add: small_float_def)

lemma parse_quake_rows:
  assumes "\<forall>r\<in>set rows. parses small_float small_strptime two_states r"
  shows "parse_raw_earthquake_data small_float small_strptime two_states rows
         = Inr (List.map_filter (event_of small_float small_strptime two_states) rows)"
  by (simp add: parse_raw_earthquake_data_def parse_rows_result[OF assms])

lemma map_filter_replicate:
  "f x = Some y \<Longrightarrow> List.map_filter f (replicate n x) = replicate n y"
  by (induction n) simp_all

lemma foldl_add_replicate:
  "foldl (\<lambda>total e. total + magnitude e) t (replicate n e) = t + of_nat n * magnitude e"
  by (induction n arbitrary: t) (simp_all add: algebra_simps)

lemma distance_to_site:
  "distance_to exact_math site (quake mag 0 0) = Inr 0"
  "distance_to exact_math site (quake mag 0 180) = Inr (6371 * pi)"
  by (simp_all add: distance_to_def site_def quake_def distance_same_point distance_antipodes)

lemma parsed_1000:
  "parse_raw_earthquake_data small_float small_strptime two_states
     (replicate 1000 (quake_row ''2'' ''0'' ''0'')) = Inr (replicate 1000 (quake 2 0 0))"
proof -
  note q = quake_row_event[OF small_float_values(2) small_float_values(1) small_float_values(1)]
  have "\<forall>r\<in>set (replicate 1000 (quake_row ''2'' ''0'' ''0'')).
          parses small_float small_strptime two_states r"
    using q(2) by simp
  from parse_quake_rows[OF this] show ?thesis
    by (simp only: map_filter_replicate[of "event_of small_float small_strptime two_states"
          "quake_row ''2'' ''0'' ''0''" "quake 2 0 0" 1000, OF q(1)])
qed

lemma nearby_1000:
  "measured exact_math site (replicate 1000 (quake 2 0 0))"
  "nearby_count exact_math site (replicate 1000 (quake 2 0 0)) = 1000"
  "nearby_magnitude exact_math site (replicate 1000 (quake 2 0 0)) = 2000"
proof -
  show "measured exact_math site (replicate 1000 (quake 2 0 0))"
    by (simp add: measured_def distance_to_site)
  have e: "nearby_events exact_math site (replicate 1000 (quake 2 0 0))
           = replicate 1000 (quake 2 0 0)"
    by (simp add: nearby_events_def distance_to_site)
  show "nearby_count exact_math site (replicate 1000 (quake 2 0 0)) = 1000"
    by (simp add: nearby_count_def e)
  have "rnd exact_math = (\<lambda>x. x)" by (simp add: exact_math_def)
  then have "nearby_magnitude exact_math site (replicate 1000 (quake 2 0 0))
        = foldl (\<lambda>total e. total + magnitude e) 0 (replicate 1000 (quake 2 0 0))"
    by (simp add: nearby_magnitude_def e)
  also have "\<dots> = 2000"
    by (simp add: foldl_add_replicate quake_def)
  finally show "nearby_magnitude exact_math site (replicate 1000 (quake 2 0 0)) = 2000" .
qed

subsection \<open>The outcome of a call\<close>

lemma scoring_parse_raises:
  "parse_raw_earthquake_data float strptime us_states rows = Inl e \<Longrightarrow>
   calculate_earthquake_risk_for_location m float strptime us_states rows cl = (Inl e, cl)"
  by (simp add: calculate_earthquake_risk_for_location_def)

lemma scoring_after_loop:
  assumes "parse_raw_earthquake_data float strptime us_states rows = Inr data"
    and "measured m cl data"
  shows "calculate_earthquake_risk_for_location m float strptime us_states rows cl =
     (let T = nearby_magnitude m cl data;
          N = nearby_count m cl data;
          cl' = cl\<lparr>client_nearby_total_magnitude := Some T, client_nearby_earthquakes := Some N\<rparr>;
          avg = rnd m (T / of_int N);
          rest = rnd m (10 - avg);
          mag_factor = rnd m (1 / rest);
          quakes_factor = rnd m (rnd m (1 / of_int (1000 - N)) * 100);
          total = rnd m (mag_factor + quakes_factor)
      in if N = 0 then (Inl (ZeroDivisionError AvgMagnitude), cl')
         else if rest = 0 then (Inl (ZeroDivisionError MagnitudeFactor), cl')
         else if N = 1000 then (Inl (ZeroDivisionError NumQuakesFactor), cl')
         else (Inr (), cl'\<lparr>earthquake_risk := Some
                  \<lparr>nearby_earthquakes = N, nearby_total_magnitude = T, avg_magnitude = avg,
                   magnitude_factor = mag_factor, num_quakes_factor = quakes_factor,
                   total_risk_factor = total, should_insure = \<not> total \<ge> 0.22\<rparr>\<rparr>))"
  by (simp add: calculate_earthquake_risk_for_location_def assms(1) nearby_start[OF assms(2)]
        Let_def MAX_MAGNITUDE_def)

lemma three_quakes:
  "parse_raw_earthquake_data small_float small_strptime two_states
     [quake_row ''2'' ''0'' ''0'', quake_row ''4'' ''0'' ''0'', quake_row ''9'' ''0'' ''180'']
   = Inr [quake 2 0 0, quake 4 0 0, quake 9 0 180]"
  "measured exact_math site [quake 2 0 0, quake 4 0 0, quake 9 0 180]"
  "nearby_count exact_math site [quake 2 0 0, quake 4 0 0, quake 9 0 180] = 2"
  "nearby_magnitude exact_math site [quake 2 0 0, quake 4 0 0, quake 9 0 180] = 6"
proof -
  note a = quake_row_event[OF small_float_values(2) small_float_values(1) small_float_values(1)]
  note b = quake_row_event[OF small_float_values(4) small_float_values(1) small_float_values(1)]
  note c = quake_row_event[OF small_float_values(5) small_float_values(1) small_float_values(8)]
  have "\<forall>r\<in>set [quake_row ''2'' ''0'' ''0'', quake_row ''4'' ''0'' ''0'',
                  quake_row ''9'' ''0'' ''180'']. parses small_float small_strptime two_states r"
    using a(2) b(2) c(2) by simp
  from parse_quake_rows[OF this]
  show "parse_raw_earthquake_data small_float small_strptime two_states
     [quake_row ''2'' ''0'' ''0'', quake_row ''4'' ''0'' ''0'', quake_row ''9'' ''0'' ''180'']
   = Inr [quake 2 0 0, quake 4 0 0, quake 9 0 180]"
    by (simp add: a(1) b(1) c(1))
  show "measured exact_math site [quake 2 0 0, quake 4 0 0, quake 9 0 180]"
    by (simp add: measured_def distance_to_site)
  have e: "nearby_events exact_math site [quake 2 0 0, quake 4 0 0, quake 9 0 180]
           = [quake 2 0 0, quake 4 0 0]"
    by (simp add: nearby_events_def distance_to_site antipodes_far)
  show "nearby_count exact_math site [quake 2 0 0, quake 4 0 0, quake 9 0 180] = 2"
    by (simp add: nearby_count_def e)
  show "nearby_magnitude exact_math site [quake 2 0 0, quake 4 0 0, quake 9 0 180] = 6"
    unfolding nearby_magnitude_def e by (simp add: exact_math_def quake_def)
qed

lemma two_strong_quakes:
  "parse_raw_earthquake_data small_float small_strptime two_states
     [quake_row ''4'' ''0'' ''0'', quake_row ''16'' ''0'' ''0''] = Inr [quake 4 0 0, quake 16 0 0]"
  "measured exact_math site [quake 4 0 0, quake 16 0 0]"
  "nearby_count exact_math site [quake 4 0 0, quake 16 0 0] = 2"
  "nearby_magnitude exact_math site [quake 4 0 0, quake 16 0 0] = 20"
proof -
  note a = quake_row_event[OF small_float_values(4) small_float_values(1) small_float_values(1)]
  note b = quake_row_event[OF small_float_values(7) small_float_values(1) small_float_values(1)]
  have "\<forall>r\<in>set [quake_row ''4'' ''0'' ''0'', quake_row ''16'' ''0'' ''0''].
          parses small_float small_strptime two_states r"
    using a(2) b(2) by simp
  from parse_quake_rows[OF this]
  show "parse_raw_earthquake_data small_float small_strptime two_states
     [quake_row ''4'' ''0'' ''0'', quake_row ''16'' ''0'' ''0''] = Inr [quake 4 0 0, quake 16 0 0]"
    by (simp add: a(1) b(1))
  show "measured exact_math site [quake 4 0 0, quake 16 0 0]"
    by (simp add: measured_def distance_to_site)
  have e: "nearby_events exact_math site [quake 4 0 0, quake 16 0 0] = [quake 4 0 0, quake 16 0 0]"
    by (simp add: nearby_events_def distance_to_site)
  show "nearby_count exact_math site [quake 4 0 0, quake 16 0 0] = 2"
    by (simp add: nearby_count_def e)
  show "nearby_magnitude exact_math site [quake 4 0 0, quake 16 0 0] = 20"
    unfolding nearby_magnitude_def e by (simp add: exact_math_def quake_def)
qed

lemma one_quake:
  "small_float mag_text = Some mag \<Longrightarrow>
   parse_raw_earthquake_data small_float small_strptime two_states [quake_row mag_text ''0'' ''0'']
   = Inr [quake mag 0 0]"
  "measured exact_math site [quake mag 0 0]"
  "nearby_count exact_math site [quake mag 0 0] = 1"
  "nearby_magnitude exact_math site [quake mag 0 0] = mag"
proof -
  show "parse_raw_earthquake_data small_float small_strptime two_states
          [quake_row mag_text ''0'' ''0''] = Inr [quake mag 0 0]"
    if m: "small_float mag_text = Some mag"
  proof -
    note a = quake_row_event[OF m small_float_values(1) small_float_values(1)]
    have "\<forall>r\<in>set [quake_row mag_text ''0'' ''0'']. parses small_float small_strptime two_states r"
      using a(2) by simp
    from parse_quake_rows[OF this] show ?thesis by (simp add: a(1))
  qed
  show "measured exact_math site [quake mag 0 0]"
    by (simp add: measured_def distance_to_site)
  have e: "nearby_events exact_math site [quake mag 0 0] = [quake mag 0 0]"
    by (simp add: nearby_events_def distance_to_site)
  show "nearby_count exact_math site [quake mag 0 0] = 1"
    by (simp add: nearby_count_def e)
  show "nearby_magnitude exact_math site [quake mag 0 0] = mag"
    unfolding nearby_magnitude_def e by (simp add: exact_math_def quake_def)
qed

lemma far_quake:
  "parse_raw_earthquake_data small_float small_strptime two_states [quake_row ''9'' ''0'' ''180'']
   = Inr [quake 9 0 180]"
  "measured exact_math site [quake 9 0 180]"
  "nearby_count exact_math site [quake 9 0 180] = 0"
proof -
  note a = quake_row_event[OF small_float_values(5) small_float_values(1) small_float_values(8)]
  have "\<forall>r\<in>set [quake_row ''9'' ''0'' ''180'']. parses small_float small_strptime two_states r"
    using a(2) by simp
  from parse_quake_rows[OF this]
  show "parse_raw_earthquake_data small_float small_strptime two_states
          [quake_row ''9'' ''0'' ''180''] = Inr [quake 9 0 180]"
    by (simp add: a(1))
  show "measured exact_math site [quake 9 0 180]"
    by (simp add: measured_def distance_to_site)
  show "nearby_count exact_math site [quake 9 0 180] = 0"
    by (simp add: nearby_count_def nearby_events_def distance_to_site antipodes_far)
qed

lemma no_quake:
  "parse_raw_earthquake_data small_float small_strptime two_states [] = Inr []"
  "measured exact_math site []"
  "nearby_count exact_math site [] = 0"
  by (simp_all add: parse_raw_earthquake_data_def measured_def nearby_count_def nearby_events_def)

lemma rnd_exact: "rnd exact_math x = x"
  by (simp add: exact_math_def)

subsection \<open>The assessment\<close>

text \<open>
  Claim C1, as the code has it. Let the parser return and every distance of the loop
  be computed, let \<open>N\<close> be the number of events within 200 km (inclusive) of the
  location and \<open>T\<close> the sum of their magnitudes. When \<open>N > 0\<close>, \<open>N\<close> is not 1000 and
  \<^verbatim>\<open>MAX_MAGNITUDE - avg_magnitude\<close> is not 0, the scorer returns and attaches an assessment
  with \<^verbatim>\<open>avg_magnitude = T / N\<close>, \<^verbatim>\<open>magnitude_factor = 1 / (10 - avg_magnitude)\<close>,
  \<^verbatim>\<open>num_quakes_factor = (1 / (1000 - N)) * 100\<close>, \<^verbatim>\<open>total_risk_factor\<close> their sum, each
  the float that the operation gives, and \<^verbatim>\<open>should_insure\<close> false exactly when the total
  is at least 0.22.
\<close>

theorem scoring_formula:
  assumes "parse_raw_earthquake_data float strptime us_states rows = Inr data"
    and "measured m cl data"
    and "0 < nearby_count m cl data"
    and "nearby_count m cl data \<noteq> 1000"
    and "rnd m (10 - rnd m (nearby_magnitude m cl data / of_int (nearby_count m cl data))) \<noteq> 0"
  shows "\<exists>risk.
       fst (calculate_earthquake_risk_for_location m float strptime us_states rows cl) = Inr ()
     \<and> earthquake_risk (snd (calculate_earthquake_risk_for_location m float strptime us_states
                               rows cl)) = Some risk
     \<and> nearby_earthquakes risk = nearby_count m cl data
     \<and> nearby_total_magnitude risk = nearby_magnitude m cl data
     \<and> avg_magnitude risk = rnd m (nearby_magnitude m cl data / of_int (nearby_count m cl data))
     \<and> magnitude_factor risk = rnd m (1 / rnd m (10 - avg_magnitude risk))
     \<and> num_quakes_factor risk = rnd m (rnd m (1 / of_int (1000 - nearby_count m cl data)) * 100)
     \<and> total_risk_factor risk = rnd m (magnitude_factor risk + num_quakes_factor risk)
     \<and> (should_insure risk = False \<longleftrightarrow> total_risk_factor risk \<ge> 0.22)"
  using assms(3-5)
  by (simp add: scoring_after_loop[OF assms(1,2)] Let_def)

theorem scoring_formula_witness:
  "\<exists>risk.
       fst (calculate_earthquake_risk_for_location exact_math small_float small_strptime two_states
              [quake_row ''2'' ''0'' ''0'', quake_row ''4'' ''0'' ''0'',
               quake_row ''9'' ''0'' ''180''] site) = Inr ()
     \<and> earthquake_risk (snd (calculate_earthquake_risk_for_location exact_math small_float
              small_strptime two_states
              [quake_row ''2'' ''0'' ''0'', quake_row ''4'' ''0'' ''0'',
               quake_row ''9'' ''0'' ''180''] site)) = Some risk
     \<and> nearby_earthquakes risk = 2 \<and> nearby_total_magnitude risk = 6
     \<and> avg_magnitude risk = 3 \<and> magnitude_factor risk = 1 / 7
     \<and> num_quakes_factor risk = 100 / 998 \<and> should_insure risk = False"
  using scoring_formula [OF three_quakes(1) three_quakes(2)]
  by (auto simp: three_quakes(3,4) rnd_exact)

text \<open>
  With \<open>N > 0\<close> alone the scorer need not return: 1000 events nearby make
  \<^verbatim>\<open>1000 - nearby_earthquakes\<close> zero, and one event of magnitude 10 nearby makes
  \<^verbatim>\<open>MAX_MAGNITUDE - avg_magnitude\<close> zero; each division raises. (In both examples the
  parser returns and every distance is 0.)
\<close>

theorem scoring_raises_counterexample:
  "0 < nearby_count exact_math site (replicate 1000 (quake 2 0 0))
   \<and> parse_raw_earthquake_data small_float small_strptime two_states
         (replicate 1000 (quake_row ''2'' ''0'' ''0'')) = Inr (replicate 1000 (quake 2 0 0))
   \<and> fst (calculate_earthquake_risk_for_location exact_math small_float small_strptime two_states
            (replicate 1000 (quake_row ''2'' ''0'' ''0'')) site)
       = Inl (ZeroDivisionError NumQuakesFactor)
   \<and> 0 < nearby_count exact_math site [quake 10 0 0]
   \<and> parse_raw_earthquake_data small_float small_strptime two_states
         [quake_row ''10'' ''0'' ''0''] = Inr [quake 10 0 0]
   \<and> fst (calculate_earthquake_risk_for_location exact_math small_float small_strptime two_states
            [quake_row ''10'' ''0'' ''0''] site)
       = Inl (ZeroDivisionError MagnitudeFactor)"
  by (simp add: parsed_1000 scoring_after_loop[OF parsed_1000 nearby_1000(1)] nearby_1000(2,3)
        one_quake(1)[OF small_float_values(6)]
        scoring_after_loop[OF one_quake(1)[OF small_float_values(6)] one_quake(2)]
        one_quake(3,4) rnd_exact Let_def)

text \<open>
  Claim C2, as the code has it. Let the parser return and every distance of the loop
  be computed. For a location without nearby events the division of
  \<^verbatim>\<open>avg_magnitude\<close> raises \<^verbatim>\<open>ZeroDivisionError\<close>, and the scorer returns exactly when the
  number of nearby events is positive and not 1000 and
  \<^verbatim>\<open>MAX_MAGNITUDE - avg_magnitude\<close> is not 0.
\<close>

theorem scoring_completes:
  assumes "parse_raw_earthquake_data float strptime us_states rows = Inr data"
    and "measured m cl data"
  shows "(nearby_count m cl data = 0
      \<longrightarrow> fst (calculate_earthquake_risk_for_location m float strptime us_states rows cl)
            = Inl (ZeroDivisionError AvgMagnitude))
   \<and> (fst (calculate_earthquake_risk_for_location m float strptime us_states rows cl) = Inr ()
        \<longleftrightarrow> 0 < nearby_count m cl data \<and> nearby_count m cl data \<noteq> 1000
            \<and> rnd m (10 - rnd m (nearby_magnitude m cl data / of_int (nearby_count m cl data)))
                \<noteq> 0)"
  using nearby_count_nonneg [of m cl data]
  by (auto simp add: scoring_after_loop[OF assms] Let_def)

theorem scoring_completes_witness:
  "nearby_count exact_math site [] = 0
   \<and> fst (calculate_earthquake_risk_for_location exact_math small_float small_strptime two_states
            [] site) = Inl (ZeroDivisionError AvgMagnitude)
   \<and> nearby_count exact_math site [quake 9 0 180] = 0
   \<and> fst (calculate_earthquake_risk_for_location exact_math small_float small_strptime two_states
            [quake_row ''9'' ''0'' ''180''] site) = Inl (ZeroDivisionError AvgMagnitude)
   \<and> 0 < nearby_count exact_math site [quake 2 0 0]
   \<and> fst (calculate_earthquake_risk_for_location exact_math small_float small_strptime two_states
            [quake_row ''2'' ''0'' ''0''] site) = Inr ()"
  using scoring_completes [OF no_quake(1) no_quake(2)]
    scoring_completes [OF far_quake(1) far_quake(2)]
    scoring_completes [OF one_quake(1)[OF small_float_values(2)] one_quake(2)]
  by (simp add: no_quake(3) far_quake(3) one_quake(3,4) rnd_exact)

text \<open>
  A positive number of nearby events is not enough for the scorer to return: two
  events of magnitudes 4 and 16 nearby have the average 10, and the division of
  \<^verbatim>\<open>magnitude_factor\<close> raises.
\<close>

theorem scoring_incomplete_counterexample:
  "0 < nearby_count exact_math site [quake 4 0 0, quake 16 0 0]
   \<and> parse_raw_earthquake_data small_float small_strptime two_states
         [quake_row ''4'' ''0'' ''0'', quake_row ''16'' ''0'' ''0'']
       = Inr [quake 4 0 0, quake 16 0 0]
   \<and> fst (calculate_earthquake_risk_for_location exact_math small_float small_strptime two_states
            [quake_row ''4'' ''0'' ''0'', quake_row ''16'' ''0'' ''0''] site)
       = Inl (ZeroDivisionError MagnitudeFactor)"
  by (simp add: two_strong_quakes(1)
        scoring_after_loop[OF two_strong_quakes(1) two_strong_quakes(2)]
        two_strong_quakes(3,4) rnd_exact Let_def)

subsection \<open>What the scorer writes\<close>

text \<open>
  Claim C8, as the code has it. The call leaves the seven fields of the location
  (building name, location text, city, state, full address, latitude, longitude) as
  they were. Besides \<^verbatim>\<open>earthquake_risk\<close>, which it assigns when it returns and leaves as
  it was when it raises, it assigns the two attributes \<^verbatim>\<open>nearby_total_magnitude\<close> and
  \<^verbatim>\<open>nearby_earthquakes\<close> of the location once the parser has returned and the distances
  of the loop are computed; when the parser raises, the location is as it was.
\<close>

theorem scoring_frame:
  "building_name (snd (calculate_earthquake_risk_for_location m float strptime us_states rows cl))
     = building_name cl
   \<and> location (snd (calculate_earthquake_risk_for_location m float strptime us_states rows cl))
       = location cl
   \<and> city (snd (calculate_earthquake_risk_for_location m float strptime us_states rows cl))
       = city cl
   \<and> state (snd (calculate_earthquake_risk_for_location m float strptime us_states rows cl))
       = state cl
   \<and> full_address (snd (calculate_earthquake_risk_for_location m float strptime us_states rows cl))
       = full_address cl
   \<and> client_latitude (snd (calculate_earthquake_risk_for_location m float strptime us_states
                              rows cl)) = client_latitude cl
   \<and> client_longitude (snd (calculate_earthquake_risk_for_location m float strptime us_states
                               rows cl)) = client_longitude cl
   \<and> (parse_raw_earthquake_data float strptime us_states rows = Inr data \<and> measured m cl data
        \<longrightarrow> client_nearby_total_magnitude
              (snd (calculate_earthquake_risk_for_location m float strptime us_states rows cl))
            = Some (nearby_magnitude m cl data)
          \<and> client_nearby_earthquakes
              (snd (calculate_earthquake_risk_for_location m float strptime us_states rows cl))
            = Some (nearby_count m cl data))
   \<and> (parse_raw_earthquake_data float strptime us_states rows = Inl e
        \<longrightarrow> snd (calculate_earthquake_risk_for_location m float strptime us_states rows cl) = cl)
   \<and> (if fst (calculate_earthquake_risk_for_location m float strptime us_states rows cl) = Inr ()
        then earthquake_risk
               (snd (calculate_earthquake_risk_for_location m float strptime us_states rows cl))
             \<noteq> None
        else earthquake_risk
               (snd (calculate_earthquake_risk_for_location m float strptime us_states rows cl))
             = earthquake_risk cl)"
proof -
  have fields:
    "building_name (snd (calculate_earthquake_risk_for_location m float strptime us_states rows cl))
       = building_name cl
     \<and> location (snd (calculate_earthquake_risk_for_location m float strptime us_states rows cl))
         = location cl
     \<and> city (snd (calculate_earthquake_risk_for_location m float strptime us_states rows cl))
         = city cl
     \<and> state (snd (calculate_earthquake_risk_for_location m float strptime us_states rows cl))
         = state cl
     \<and> full_address (snd (calculate_earthquake_risk_for_location m float strptime us_states rows cl))
         = full_address cl
     \<and> client_latitude (snd (calculate_earthquake_risk_for_location m float strptime us_states
                                rows cl)) = client_latitude cl
     \<and> client_longitude (snd (calculate_earthquake_risk_for_location m float strptime us_states
                                 rows cl)) = client_longitude cl"
    by (simp add: calculate_earthquake_risk_for_location_def Let_def
          split: sum.splits prod.splits)
  have risk:
    "if fst (calculate_earthquake_risk_for_location m float strptime us_states rows cl) = Inr ()
     then earthquake_risk
            (snd (calculate_earthquake_risk_for_location m float strptime us_states rows cl))
          \<noteq> None
     else earthquake_risk
            (snd (calculate_earthquake_risk_for_location m float strptime us_states rows cl))
          = earthquake_risk cl"
    by (simp add: calculate_earthquake_risk_for_location_def Let_def
          split: sum.splits prod.splits)
  have attrs:
    "client_nearby_total_magnitude
       (snd (calculate_earthquake_risk_for_location m float strptime us_states rows cl))
     = Some (nearby_magnitude m cl data)
     \<and> client_nearby_earthquakes
         (snd (calculate_earthquake_risk_for_location m float strptime us_states rows cl))
       = Some (nearby_count m cl data)"
    if "parse_raw_earthquake_data float strptime us_states rows = Inr data" "measured m cl data"
    by (simp add: scoring_after_loop[OF that] Let_def)
  have raised:
    "snd (calculate_earthquake_risk_for_location m float strptime us_states rows cl) = cl"
    if "parse_raw_earthquake_data float strptime us_states rows = Inl e"
    by (simp add: scoring_parse_raises[OF that])
  from fields risk attrs raised show ?thesis by blast
qed

lemma parse_no_mag:
  "parse_raw_earthquake_data sample_float sample_strptime three_states [row_no_mag]
   = Inl ValueError"
  by (simp add: row_no_mag_def parse_raw_earthquake_data_def make_earthquake_def convert_def
        and_then_def sample_float_def sample_strptime_def parse_earthquake_location_def pop_def
        str_split_def skipped_states_def lookup_state_def us_state_code_to_name_def
        us_state_name_to_code_def us_state_name_to_code_map_def us_state_code_to_name_map_def
        getitem_def three_states_def)

theorem scoring_frame_witness:
  "full_address (snd (calculate_earthquake_risk_for_location exact_math small_float small_strptime
                        two_states [quake_row ''2'' ''0'' ''0''] site))
     = ''1 Main St, Anza, CA''
   \<and> client_nearby_total_magnitude
         (snd (calculate_earthquake_risk_for_location exact_math small_float small_strptime
                 two_states [quake_row ''2'' ''0'' ''0''] site)) = Some 2
   \<and> client_nearby_earthquakes
         (snd (calculate_earthquake_risk_for_location exact_math small_float small_strptime
                 two_states [quake_row ''2'' ''0'' ''0''] site)) = Some 1
   \<and> parse_raw_earthquake_data sample_float sample_strptime three_states [row_no_mag]
       = Inl ValueError
   \<and> snd (calculate_earthquake_risk_for_location exact_math sample_float sample_strptime
            three_states [row_no_mag] site) = site"
proof -
  have "full_address site = ''1 Main St, Anza, CA''" by (simp add: site_def)
  with scoring_frame [of exact_math small_float small_strptime two_states
      "[quake_row ''2'' ''0'' ''0'']" site "[quake 2 0 0]"]
    scoring_frame [of exact_math sample_float sample_strptime three_states "[row_no_mag]" site
      _ ValueError]
  show ?thesis
    by (simp add: one_quake(1)[OF small_float_values(2)] one_quake(2,3,4) parse_no_mag)
qed

text \<open>
  The claim has \<^verbatim>\<open>earthquake_risk\<close> as the only thing the call changes. On a location
  without the two attributes, a call that returns leaves both set.
\<close>

theorem scoring_writes_more_counterexample:
  "client_nearby_earthquakes site = None
   \<and> client_nearby_earthquakes
         (snd (calculate_earthquake_risk_for_location exact_math small_float small_strptime
                 two_states [quake_row ''2'' ''0'' ''0''] site)) = Some 1
   \<and> client_nearby_total_magnitude site = None
   \<and> client_nearby_total_magnitude
         (snd (calculate_earthquake_risk_for_location exact_math small_float small_strptime
                 two_states [quake_row ''2'' ''0'' ''0''] site)) = Some 2"
  by (simp add: scoring_after_loop[OF one_quake(1)[OF small_float_values(2)] one_quake(2)]
        one_quake(3,4) rnd_exact Let_def)
     (simp add: site_def)

text \<open>
  When a distance of the loop raises, the call raises the same exception and the
  location is as it was.
\<close>

lemma scoring_loop_raises:
  "parse_raw_earthquake_data float strptime us_states rows = Inr data \<Longrightarrow>
   nearby m cl data (0, 0) = Inl e \<Longrightarrow>
   calculate_earthquake_risk_for_location m float strptime us_states rows cl = (Inl e, cl)"
  by (simp add: calculate_earthquake_risk_for_location_def)

end
